theory Spec2Isabelle
  imports Complex_Main "HOL-Library.Multiset"
begin

section \<open>Exceptions\<close>

text \<open>
  The exception classes that the handlers of \<open>load_csv\<close> tell apart. \<open>OtherException\<close> is
  any other instance of Python's \<open>Exception\<close>; \<open>SystemExiting\<close> is an instance of
  \<open>BaseException\<close> outside \<open>Exception\<close> (KeyboardInterrupt, SystemExit), which an
  \<open>except Exception\<close> clause does not catch. A computation that may raise returns
  \<open>exn + 'a\<close>, with \<open>Inl\<close> for the raised exception.
\<close>

datatype exn =
    EmptyDataError
  | UnicodeDecodeError
  | ParserError
  | OtherException string
  | SystemExiting string

fun is_Exception :: "exn \<Rightarrow> bool" where
  "is_Exception (SystemExiting _) = False"
| "is_Exception _ = True"

section \<open>Tables\<close>

text \<open>
  A pandas column stores its values in an array of the column's dtype: an \<open>int64\<close> column
  holds integers, a \<open>float64\<close> column floats with NaN for a missing entry (\<open>None\<close> here),
  a \<open>bool\<close> column booleans, and an \<open>object\<close> column arbitrary Python objects (the strings
  of a text or mixed column). Numbers are exact reals: the rounding of float64 arithmetic
  and the infinities are not modelled.
\<close>

datatype pyobj = PyStr string | PyInt int | PyFloat real | PyBool bool | PyNaN

datatype coldata =
    Int64Col "int list"
  | Float64Col "real option list"
  | BoolCol "bool list"
  | ObjectCol "pyobj list"

record column =
  cname :: string
  cdata :: coldata

type_synonym dataframe = "column list"

fun col_length :: "coldata \<Rightarrow> nat" where
  "col_length (Int64Col xs) = length xs"
| "col_length (Float64Col xs) = length xs"
| "col_length (BoolCol xs) = length xs"
| "col_length (ObjectCol xs) = length xs"

definition ncols :: "dataframe \<Rightarrow> nat" where
  "ncols df = length df"

definition nrows :: "dataframe \<Rightarrow> nat" where
  "nrows df = (case df of [] \<Rightarrow> 0 | c # _ \<Rightarrow> col_length (cdata c))"

text \<open>\<open>xs[:n]\<close> as \<open>head(n)\<close> takes it: a negative \<open>n\<close> drops the last \<open>-n\<close> entries.\<close>

definition head_list :: "int \<Rightarrow> 'a list \<Rightarrow> 'a list" where
  "head_list n xs = (if 0 \<le> n then take (nat n) xs else take (length xs - nat (- n)) xs)"

fun head_coldata :: "int \<Rightarrow> coldata \<Rightarrow> coldata" where
  "head_coldata n (Int64Col xs) = Int64Col (head_list n xs)"
| "head_coldata n (Float64Col xs) = Float64Col (head_list n xs)"
| "head_coldata n (BoolCol xs) = BoolCol (head_list n xs)"
| "head_coldata n (ObjectCol xs) = ObjectCol (head_list n xs)"

definition df_head :: "int \<Rightarrow> dataframe \<Rightarrow> dataframe" where
  "df_head n df = map (\<lambda>c. c\<lparr>cdata := head_coldata n (cdata c)\<rparr>) df"

section \<open>The libraries the program calls\<close>

datatype encoding = DefaultEncoding | Latin1

text \<open>
  The messages \<open>load_csv\<close> passes to \<open>st.error\<close>, in the order of the source:
  no file given, empty CSV file, encoding error, parse error (invalid format), and
  "cannot read the CSV file" followed by the text of the exception. \<open>MsgHistogram\<close> is
  the message of \<open>main\<close> when no engine draws the histogram, with the text of the
  exception.
\<close>

datatype message =
  MsgNoFile | MsgEmpty | MsgEncoding | MsgParse | MsgUnknown exn | MsgHistogram exn

text \<open>
  What the libraries do is a parameter of the model. \<open>'f\<close> is the state of the file-like
  object. \<open>seek\<close> is \<open>file.seek(0)\<close>: it raises or leaves the rewound file. \<open>read_csv\<close> is
  \<open>pd.read_csv\<close> with the given encoding: it raises or returns a table, and leaves the
  file where reading stopped. \<open>st_error\<close> is \<open>st.error\<close>: \<open>None\<close> when the message is
  displayed, the exception when the call raises. \<open>select_dtypes_exn\<close> and
  \<open>is_numeric_dtype_exn\<close> say whether \<open>df.select_dtypes\<close> and the column-wise fallback
  test raise. \<open>parse_number\<close> is the conversion of one string by \<open>pd.to_numeric\<close>.
  \<open>to_csv\<close> is \<open>df.to_csv(index=False)\<close>. \<open>altair_exn\<close> and \<open>pyplot_exn\<close> say whether
  drawing the given values with the given bin parameter raises, in the Altair engine and
  in the Matplotlib engine.
\<close>

record 'f lib =
  seek :: "'f \<Rightarrow> exn + 'f"
  read_csv :: "encoding \<Rightarrow> 'f \<Rightarrow> (exn + dataframe) \<times> 'f"
  st_error :: "message \<Rightarrow> exn option"
  select_dtypes_exn :: "dataframe \<Rightarrow> exn option"
  is_numeric_dtype_exn :: "column \<Rightarrow> exn option"
  parse_number :: "string \<Rightarrow> real option"
  to_csv :: "dataframe \<Rightarrow> string"
  altair_exn :: "(nat \<times> real) list \<Rightarrow> int \<Rightarrow> exn option"
  pyplot_exn :: "(nat \<times> real) list \<Rightarrow> int \<Rightarrow> exn option"

text \<open>
  The observable effects of \<open>load_csv\<close>, in order: a call of \<open>file.seek(0)\<close>, a call of
  \<open>pd.read_csv\<close> with an encoding, a message displayed by \<open>st.error\<close>.
\<close>

datatype event = Seek0 | ReadCsv encoding | Shown message

section \<open>load_csv\<close>

text \<open>
  \<open>if show_error: try: st.error(m) except Exception: pass\<close>, followed by
  \<open>return None\<close>.
\<close>

definition give_up ::
  "'f lib \<Rightarrow> bool \<Rightarrow> message \<Rightarrow> event list \<Rightarrow> (exn + dataframe option) \<times> event list" where
  "give_up L show_error m tr =
     (if show_error then
        (case st_error L m of
           None \<Rightarrow> (Inr None, tr @ [Shown m])
         | Some e \<Rightarrow> if is_Exception e then (Inr None, tr) else (Inl e, tr))
      else (Inr None, tr))"

text \<open>The handler of \<open>UnicodeDecodeError\<close>: rewind, read again as latin-1.\<close>

definition retry_latin1 ::
  "'f lib \<Rightarrow> bool \<Rightarrow> 'f \<Rightarrow> event list \<Rightarrow> (exn + dataframe option) \<times> event list" where
  "retry_latin1 L show_error f tr =
     (case seek L f of
        Inl e \<Rightarrow>
          if is_Exception e then give_up L show_error MsgEncoding (tr @ [Seek0])
          else (Inl e, tr @ [Seek0])
      | Inr f' \<Rightarrow>
          (case read_csv L Latin1 f' of
             (Inr df, _) \<Rightarrow> (Inr (Some df), tr @ [Seek0, ReadCsv Latin1])
           | (Inl e, _) \<Rightarrow>
               if is_Exception e
               then give_up L show_error MsgEncoding (tr @ [Seek0, ReadCsv Latin1])
               else (Inl e, tr @ [Seek0, ReadCsv Latin1])))"

text \<open>The \<open>try\<close> around the first \<open>pd.read_csv(file)\<close> and its handlers, in their order.\<close>

definition first_read ::
  "'f lib \<Rightarrow> bool \<Rightarrow> 'f \<Rightarrow> event list \<Rightarrow> (exn + dataframe option) \<times> event list" where
  "first_read L show_error f tr =
     (case read_csv L DefaultEncoding f of
        (Inr df, _) \<Rightarrow> (Inr (Some df), tr @ [ReadCsv DefaultEncoding])
      | (Inl e, f') \<Rightarrow>
          if e = EmptyDataError
          then give_up L show_error MsgEmpty (tr @ [ReadCsv DefaultEncoding])
          else if e = UnicodeDecodeError
          then retry_latin1 L show_error f' (tr @ [ReadCsv DefaultEncoding])
          else if e = ParserError
          then give_up L show_error MsgParse (tr @ [ReadCsv DefaultEncoding])
          else if is_Exception e
          then give_up L show_error (MsgUnknown e) (tr @ [ReadCsv DefaultEncoding])
          else (Inl e, tr @ [ReadCsv DefaultEncoding]))"

text \<open>
  \<open>load_csv(file, show_error)\<close>: the value returned (\<open>None\<close> or the table) or the
  exception that leaves the function, and the effects in order. A first \<open>seek\<close> that
  raises an \<open>Exception\<close> is ignored and the file is read where it stands.
\<close>

definition load_csv ::
  "'f lib \<Rightarrow> 'f option \<Rightarrow> bool \<Rightarrow> (exn + dataframe option) \<times> event list" where
  "load_csv L file show_error =
     (case file of
        None \<Rightarrow> give_up L show_error MsgNoFile []
      | Some f \<Rightarrow>
          (case seek L f of
             Inl e \<Rightarrow>
               if is_Exception e then first_read L show_error f [Seek0]
               else (Inl e, [Seek0])
           | Inr f' \<Rightarrow> first_read L show_error f' [Seek0]))"

text \<open>
  The file as the first read finds it: rewound, or left where it stands when \<open>seek\<close>
  raises.
\<close>

definition rewound :: "'f lib \<Rightarrow> 'f \<Rightarrow> 'f" where
  "rewound L f = (case seek L f of Inl e \<Rightarrow> f | Inr f' \<Rightarrow> f')"

text \<open>The library raises nothing but instances of \<open>Exception\<close>.\<close>

definition raises_Exceptions_only :: "'f lib \<Rightarrow> bool" where
  "raises_Exceptions_only L \<longleftrightarrow>
     (\<forall>f e. seek L f = Inl e \<longrightarrow> is_Exception e) \<and>
     (\<forall>enc f e. fst (read_csv L enc f) = Inl e \<longrightarrow> is_Exception e) \<and>
     (\<forall>m e. st_error L m = Some e \<longrightarrow> is_Exception e)"

section \<open>list_numeric_columns\<close>

text \<open>
  \<open>select_dtypes(include="number")\<close> keeps the columns whose dtype is a subtype of
  \<open>numpy.number\<close>: here \<open>int64\<close> and \<open>float64\<close>, not \<open>bool\<close> and not \<open>object\<close>.
  \<open>pandas.api.types.is_numeric_dtype\<close>, which the fallback uses, accepts \<open>bool\<close> too.
\<close>

fun is_number_dtype :: "coldata \<Rightarrow> bool" where
  "is_number_dtype (Int64Col _) = True"
| "is_number_dtype (Float64Col _) = True"
| "is_number_dtype (BoolCol _) = False"
| "is_number_dtype (ObjectCol _) = False"

fun is_numeric_dtype :: "coldata \<Rightarrow> bool" where
  "is_numeric_dtype (Int64Col _) = True"
| "is_numeric_dtype (Float64Col _) = True"
| "is_numeric_dtype (BoolCol _) = True"
| "is_numeric_dtype (ObjectCol _) = False"

text \<open>\<open>[col for col in df.columns if is_numeric_dtype(df[col])]\<close>\<close>

fun columns_by_test :: "'f lib \<Rightarrow> dataframe \<Rightarrow> exn + string list" where
  "columns_by_test L [] = Inr []"
| "columns_by_test L (c # cs) =
     (case is_numeric_dtype_exn L c of
        Some e \<Rightarrow> Inl e
      | None \<Rightarrow>
          (case columns_by_test L cs of
             Inl e \<Rightarrow> Inl e
           | Inr ns \<Rightarrow> Inr (if is_numeric_dtype (cdata c) then cname c # ns else ns)))"

definition list_numeric_columns :: "'f lib \<Rightarrow> dataframe option \<Rightarrow> exn + string list" where
  "list_numeric_columns L df =
     (case df of
        None \<Rightarrow> Inr []
      | Some d \<Rightarrow>
          (case select_dtypes_exn L d of
             None \<Rightarrow> Inr (map cname (filter (\<lambda>c. is_number_dtype (cdata c)) d))
           | Some e \<Rightarrow>
               if is_Exception e then
                 (case columns_by_test L d of
                    Inr ns \<Rightarrow> Inr ns
                  | Inl e' \<Rightarrow> if is_Exception e' then Inr [] else Inl e')
               else Inl e))"

text \<open>The values of a column as Python objects.\<close>

fun col_values :: "coldata \<Rightarrow> pyobj list" where
  "col_values (Int64Col xs) = map PyInt xs"
| "col_values (Float64Col xs) = map (\<lambda>v. case v of None \<Rightarrow> PyNaN | Some r \<Rightarrow> PyFloat r) xs"
| "col_values (BoolCol xs) = map PyBool xs"
| "col_values (ObjectCol xs) = xs"



section \<open>The selected column as a numeric series\<close>

text \<open>
  A series is a list of entries, each with its index label (the row number) and its
  value; \<open>None\<close> is NaN, the "no value" marker.
\<close>

type_synonym series = "(nat \<times> real option) list"

text \<open>\<open>df[selected_col]\<close>: the column of that name, \<open>KeyError\<close> when there is none.\<close>

definition getitem :: "dataframe \<Rightarrow> string \<Rightarrow> exn + column" where
  "getitem df name =
     (case find (\<lambda>c. cname c = name) df of
        None \<Rightarrow> Inl (OtherException ''KeyError'')
      | Some c \<Rightarrow> Inr c)"

text \<open>
  \<open>pd.to_numeric(..., errors='coerce')\<close> converts entry by entry; an entry that does not
  convert becomes NaN.
\<close>

fun to_number :: "(string \<Rightarrow> real option) \<Rightarrow> pyobj \<Rightarrow> real option" where
  "to_number p (PyStr s) = p s"
| "to_number p (PyInt i) = Some (real_of_int i)"
| "to_number p (PyFloat r) = Some r"
| "to_number p (PyBool b) = Some (if b then 1 else 0)"
| "to_number p PyNaN = None"

fun to_numeric_coerce :: "(string \<Rightarrow> real option) \<Rightarrow> coldata \<Rightarrow> real option list" where
  "to_numeric_coerce p (Int64Col xs) = map (\<lambda>i. Some (real_of_int i)) xs"
| "to_numeric_coerce p (Float64Col xs) = xs"
| "to_numeric_coerce p (BoolCol xs) = map (\<lambda>b. Some (if b then 1 else 0)) xs"
| "to_numeric_coerce p (ObjectCol xs) = map (to_number p) xs"

text \<open>\<open>col_series = pd.to_numeric(df[selected_col], errors='coerce')\<close>\<close>

definition col_series :: "'f lib \<Rightarrow> dataframe \<Rightarrow> string \<Rightarrow> exn + series" where
  "col_series L df selected =
     (case getitem df selected of
        Inl e \<Rightarrow> Inl e
      | Inr c \<Rightarrow> Inr (enumerate 0 (to_numeric_coerce (parse_number L) (cdata c))))"

text \<open>\<open>dropna()\<close> removes the NaN entries and keeps the index labels of the others.\<close>

fun dropna :: "series \<Rightarrow> (nat \<times> real) list" where
  "dropna [] = []"
| "dropna ((i, None) # s) = dropna s"
| "dropna ((i, Some x) # s) = (i, x) # dropna s"

section \<open>Mean and median\<close>

text \<open>
  \<open>Series.mean()\<close> and \<open>Series.median()\<close> skip NaN and return NaN when no value is
  left. The values of the model are exact reals, so a result is followed only where no
  addition of the code can leave the range of float64, which is sure when the
  magnitudes of the present values sum to at most the greatest float64. Beyond that an
  addition of the code may overflow to an infinity; the result is then left open, as
  \<open>OutOfRange\<close>. Rounding is not modelled.
\<close>

datatype stat = NaN | Number real | OutOfRange

definition float64_max :: real where
  "float64_max = (2 ^ 53 - 1) * 2 ^ 971"

definition within_float64 :: "real list \<Rightarrow> bool" where
  "within_float64 xs \<longleftrightarrow> sum_list (map abs xs) \<le> float64_max"

definition series_mean :: "series \<Rightarrow> stat" where
  "series_mean s =
     (let xs = map snd (dropna s)
      in if xs = [] then NaN
         else if within_float64 xs then Number (sum_list xs / real (length xs))
         else OutOfRange)"

definition series_median :: "series \<Rightarrow> stat" where
  "series_median s =
     (let xs = map snd (dropna s); ys = sort xs; n = length ys
      in if n = 0 then NaN
         else if \<not> within_float64 xs then OutOfRange
         else if odd n then Number (ys ! (n div 2))
         else Number ((ys ! (n div 2 - 1) + ys ! (n div 2)) / 2))"

text \<open>The two values that \<open>main\<close> writes when the summary is asked for.\<close>

definition summarize :: "series \<Rightarrow> stat \<times> stat" where
  "summarize s = (series_mean s, series_median s)"


section \<open>Charts\<close>

text \<open>
  What \<open>main\<close> hands to each engine. The Altair chart is a bar mark over the selected
  field, binned with \<open>alt.Bin(maxbins=hist_bins)\<close>, counting records, of height 300. The
  Matplotlib figure is \<open>ax.hist(data, bins=hist_bins)\<close> with its two axis labels.
\<close>

record altair_chart =
  alt_data :: "(nat \<times> real) list"
  alt_field :: string
  alt_maxbins :: int
  alt_height :: int

record pyplot_figure =
  hist_data :: "(nat \<times> real) list"
  hist_bins_arg :: int
  hist_xlabel :: string
  hist_ylabel :: string

datatype ui =
    Info
  | Dimensions nat nat
  | Dataframe dataframe
  | Describe dataframe
  | NoNumericWarning
  | Summary stat stat
  | LineChart "(nat \<times> real) list"
  | BarChart "(nat \<times> real) list"
  | AltairChart altair_chart
  | Pyplot pyplot_figure
  | ErrorShown message
  | DownloadButton string

text \<open>\<open>st.bar_chart(col_series.dropna().head(100))\<close>\<close>

definition bar_chart :: "series \<Rightarrow> ui" where
  "bar_chart s = BarChart (head_list 100 (dropna s))"

text \<open>\<open>st.line_chart(col_series.dropna())\<close>\<close>

definition line_chart :: "series \<Rightarrow> ui" where
  "line_chart s = LineChart (dropna s)"

text \<open>
  The histogram branch: the Altair chart; when that raises an \<open>Exception\<close>, the Matplotlib
  figure; when that raises one too, the error message.
\<close>

definition histogram :: "'f lib \<Rightarrow> string \<Rightarrow> series \<Rightarrow> int \<Rightarrow> exn + ui list" where
  "histogram L selected s bins =
     (case altair_exn L (dropna s) bins of
        None \<Rightarrow>
          Inr [AltairChart \<lparr>alt_data = dropna s, alt_field = selected,
                             alt_maxbins = bins, alt_height = 300\<rparr>]
      | Some e \<Rightarrow>
          if is_Exception e then
            (case pyplot_exn L (dropna s) bins of
               None \<Rightarrow>
                 Inr [Pyplot \<lparr>hist_data = dropna s, hist_bins_arg = bins,
                               hist_xlabel = selected, hist_ylabel = ''count''\<rparr>]
             | Some e' \<Rightarrow>
                 if is_Exception e' then
                   (case st_error L (MsgHistogram e') of
                      None \<Rightarrow> Inr [ErrorShown (MsgHistogram e')]
                    | Some e'' \<Rightarrow> Inl e'')
                 else Inl e')
          else Inl e)"

section \<open>The bins each engine draws\<close>

text \<open>
  Matplotlib's \<open>hist\<close> with an integer \<open>bins\<close> takes its edges from
  \<open>numpy.histogram_bin_edges\<close>: \<open>bins + 1\<close> equally spaced edges from the least to the
  greatest value; the range is \<open>(0, 1)\<close> for no data and is widened by a half on each
  side when all values are equal. \<open>bins < 1\<close> is refused (\<open>None\<close>).
\<close>

definition numpy_outer_edges :: "real list \<Rightarrow> real \<times> real" where
  "numpy_outer_edges xs =
     (if xs = [] then (0, 1)
      else if Min (set xs) = Max (set xs) then (Min (set xs) - 1 / 2, Max (set xs) + 1 / 2)
      else (Min (set xs), Max (set xs)))"

definition numpy_bin_edges :: "real list \<Rightarrow> int \<Rightarrow> real list option" where
  "numpy_bin_edges xs bins =
     (if bins < 1 then None
      else
        let first = fst (numpy_outer_edges xs);
            last = snd (numpy_outer_edges xs)
        in Some (map (\<lambda>i. first + real i * ((last - first) / real_of_int bins))
                   [0..<nat bins + 1]))"

text \<open>
  Altair's \<open>Bin(maxbins=m)\<close> is the bin transform of Vega over the extent of the data,
  in base 10 with the divisors 5 and 2 and with "nice" boundaries: the step starts at
  a power of ten, is multiplied by ten while it gives more than \<open>m\<close> bins, and is then
  divided by 5 and by 2 where that still gives at most \<open>m\<close> bins. The two guards of the
  loop hold whenever \<open>1 \<le> m\<close>.
\<close>

function vega_grow :: "real \<Rightarrow> int \<Rightarrow> real \<Rightarrow> real" where
  "vega_grow spn maxb step =
     (if 0 < step \<and> 1 \<le> maxb \<and> maxb < \<lceil>spn / step\<rceil>
      then vega_grow spn maxb (step * 10) else step)"
  by pat_completeness auto
termination
proof (relation "measure (\<lambda>(spn, maxb, step). nat \<lceil>spn / step\<rceil>)")
  show "wf (measure (\<lambda>(spn, maxb, step). nat \<lceil>spn / step\<rceil>))"
    by simp
next
  fix spn :: real and maxb :: int and step :: real
  assume a: "0 < step \<and> 1 \<le> maxb \<and> maxb < \<lceil>spn / step\<rceil>"
  define x where "x = spn / step"
  have c: "2 \<le> \<lceil>x\<rceil>" using a unfolding x_def by linarith
  have x1: "x \<le> of_int \<lceil>x\<rceil>" by (rule le_of_int_ceiling)
  have x2: "(2::real) \<le> of_int \<lceil>x\<rceil>" using c by linarith
  have "x / 10 \<le> of_int \<lceil>x\<rceil> - 1" using x1 x2 by linarith
  then have "x / 10 \<le> of_int (\<lceil>x\<rceil> - 1)" by simp
  then have "\<lceil>x / 10\<rceil> \<le> \<lceil>x\<rceil> - 1" by (rule ceiling_le)
  then have lt: "nat \<lceil>x / 10\<rceil> < nat \<lceil>x\<rceil>" using c by linarith
  have e: "spn / (step * 10) = x / 10" by (simp add: x_def)
  have "nat \<lceil>spn / (step * 10)\<rceil> < nat \<lceil>spn / step\<rceil>"
    unfolding e using lt by (simp only: x_def)
  then show "((spn, maxb, step * 10), (spn, maxb, step))
      \<in> measure (\<lambda>(spn, maxb, step). nat \<lceil>spn / step\<rceil>)"
    by (simp only: in_measure prod.case)
qed

definition vega_step :: "real \<Rightarrow> int \<Rightarrow> real" where
  "vega_step spn maxb =
     (let level = \<lceil>log 10 (real_of_int maxb)\<rceil>;
          step0 = 10 powi (round (log 10 spn) - level);
          step1 = vega_grow spn maxb step0;
          step2 = (if spn / (step1 / 5) \<le> real_of_int maxb then step1 / 5 else step1)
      in if spn / (step2 / 2) \<le> real_of_int maxb then step2 / 2 else step2)"

text \<open>The extent that the step is chosen for: the span of the data, never zero.\<close>

definition vega_span :: "real \<Rightarrow> real \<Rightarrow> real" where
  "vega_span lo hi = (if hi - lo \<noteq> 0 then hi - lo else if \<bar>lo\<bar> \<noteq> 0 then \<bar>lo\<bar> else 1)"

text \<open>The first boundary, the last boundary and the step; nothing for no data.\<close>

definition vega_bin :: "real list \<Rightarrow> int \<Rightarrow> (real \<times> real \<times> real) option" where
  "vega_bin xs maxb =
     (if xs = [] \<or> maxb < 1 then None
      else
        let lo = Min (set xs);
            hi = Max (set xs);
            spn = vega_span lo hi;
            step = vega_step spn maxb;
            precision = (if 1 \<le> step then 0 else \<lfloor>- log 10 step\<rfloor> + 1);
            eps = 10 powi (- precision - 1);
            v = of_int \<lfloor>lo / step + eps\<rfloor> * step;
            start = (if lo < v then v - step else v);
            stop = of_int \<lceil>hi / step\<rceil> * step
        in Some (start, if stop = start then start + step else stop, step))"

definition vega_bin_edges :: "real list \<Rightarrow> int \<Rightarrow> real list option" where
  "vega_bin_edges xs maxb =
     (case vega_bin xs maxb of
        None \<Rightarrow> None
      | Some (start, stop, step) \<Rightarrow>
          Some (map (\<lambda>i. start + real i * step) [0..<nat \<lceil>(stop - start) / step\<rceil> + 1]))"

text \<open>The bin edges of a drawn histogram, by the engine that draws it.\<close>

fun bin_edges :: "ui \<Rightarrow> real list option" where
  "bin_edges (AltairChart c) = vega_bin_edges (map snd (alt_data c)) (alt_maxbins c)"
| "bin_edges (Pyplot p) = numpy_bin_edges (map snd (hist_data p)) (hist_bins_arg p)"
| "bin_edges _ = None"

section \<open>main\<close>

datatype chart_type = LineSerie | Bar | Histogramme

text \<open>
  The values of the widgets of one run: the two sidebar options, the uploaded file, the
  sample button, the statistics checkbox, the position chosen in the select box of the
  numeric columns, the chart type, the summary checkbox and the slider of the bins.
\<close>

record 'f widgets =
  show_head :: bool
  max_rows :: int
  uploaded_file :: "'f option"
  sample_button :: bool
  show_stats :: bool
  selected_index :: nat
  chart_choice :: chart_type
  agg_option :: bool
  hist_bins :: int

text \<open>The example table that \<open>main\<close> offers when no file is uploaded.\<close>

definition sample_df :: dataframe where
  "sample_df =
     [\<lparr>cname = ''x'', cdata = Int64Col [1..20]\<rparr>,
      \<lparr>cname = ''y'', cdata = Int64Col (map (\<lambda>v. v * 2 + v mod 3) [1..20])\<rparr>,
      \<lparr>cname = ''category'',
        cdata = ObjectCol (map (\<lambda>v. PyStr (if v mod 2 = 0 then ''A'' else ''B'')) [1..20::int])\<rparr>]"

text \<open>The messages that a failed \<open>load_csv\<close> has displayed.\<close>

fun shown :: "event list \<Rightarrow> ui list" where
  "shown [] = []"
| "shown (Shown m # tr) = ErrorShown m # shown tr"
| "shown (_ # tr) = shown tr"

text \<open>The expander: the dimensions, the first rows, the descriptive statistics.\<close>

definition preview :: "'f widgets \<Rightarrow> dataframe \<Rightarrow> ui list" where
  "preview W df =
     [Dimensions (nrows df) (ncols df)]
     @ (if show_head W then [Dataframe (df_head (max_rows W) df)] else [])
     @ (if show_stats W then [Describe df] else [])"

definition chart :: "'f lib \<Rightarrow> 'f widgets \<Rightarrow> string \<Rightarrow> series \<Rightarrow> exn + ui list" where
  "chart L W selected s =
     (case chart_choice W of
        LineSerie \<Rightarrow> Inr [line_chart s]
      | Bar \<Rightarrow> Inr [bar_chart s]
      | Histogramme \<Rightarrow> histogram L selected s (hist_bins W))"

text \<open>The download button at the end of \<open>main\<close>: \<open>data=df.to_csv(index=False)\<close>.\<close>

definition download :: "'f lib \<Rightarrow> dataframe \<Rightarrow> ui" where
  "download L df = DownloadButton (to_csv L df)"

text \<open>\<open>main\<close> once the table is loaded. The select box gives one of its options.\<close>

definition explore :: "'f lib \<Rightarrow> 'f widgets \<Rightarrow> dataframe \<Rightarrow> exn + ui list" where
  "explore L W df =
     (case list_numeric_columns L (Some df) of
        Inl e \<Rightarrow> Inl e
      | Inr numeric_cols \<Rightarrow>
          if numeric_cols = [] then Inr (preview W df @ [NoNumericWarning])
          else
            let selected =
                  numeric_cols !
                    (if selected_index W < length numeric_cols then selected_index W else 0)
            in (case col_series L df selected of
                  Inl e \<Rightarrow> Inl e
                | Inr s \<Rightarrow>
                    (case chart L W selected s of
                       Inl e \<Rightarrow> Inl e
                     | Inr drawn \<Rightarrow>
                         Inr (preview W df
                              @ (if agg_option W
                                 then [Summary (fst (summarize s)) (snd (summarize s))]
                                 else [])
                              @ drawn
                              @ [download L df]))))"

definition main :: "'f lib \<Rightarrow> 'f widgets \<Rightarrow> exn + ui list" where
  "main L W =
     (case uploaded_file W of
        None \<Rightarrow>
          Inr (Info # (if sample_button W
                       then [Dataframe sample_df, download L sample_df] else []))
      | Some f \<Rightarrow>
          (case load_csv L (Some f) True of
             (Inl e, tr) \<Rightarrow> Inl e
           | (Inr None, tr) \<Rightarrow> Inr (shown tr)
           | (Inr (Some df), tr) \<Rightarrow> explore L W df))"

text \<open>The table on display: the argument of \<open>st.dataframe\<close>, when one is shown.\<close>

fun displayed :: "ui list \<Rightarrow> dataframe option" where
  "displayed [] = None"
| "displayed (Dataframe d # _) = Some d"
| "displayed (_ # us) = displayed us"

text \<open>The bytes offered for download.\<close>

fun downloaded :: "ui list \<Rightarrow> string option" where
  "downloaded [] = None"
| "downloaded (DownloadButton b # _) = Some b"
| "downloaded (_ # us) = downloaded us"

section \<open>Example inputs\<close>

text \<open>The byte streams of the examples.\<close>

definition empty_csv :: string where
  "empty_csv = []"

definition header_only_csv :: string where
  "header_only_csv = ''a,b\<newline>''"

definition six_rows_csv :: string where
  "six_rows_csv = ''n\<newline>1\<newline>2\<newline>3\<newline>4\<newline>5\<newline>6\<newline>''"

definition five_rows_csv :: string where
  "five_rows_csv = ''n\<newline>1\<newline>2\<newline>3\<newline>4\<newline>5\<newline>''"

definition latin1_csv :: string where
  "latin1_csv = ''n\<newline>'' @ [CHR 0xE9] @ ''\<newline>''"

definition ragged_csv :: string where
  "ragged_csv = ''a,b\<newline>1,2\<newline>3,4,5\<newline>''"

definition mixed_csv :: string where
  "mixed_csv = ''k,v\<newline>1,1\<newline>2,abc\<newline>''"

definition gaps_csv :: string where
  "gaps_csv = ''k,v\<newline>a,1\<newline>b,2\<newline>c,3\<newline>d,\<newline>e,5\<newline>''"

definition big_id_csv :: string where
  "big_id_csv = ''id\<newline>13007854817840016671868\<newline>''"

datatype sample_stream =
    EmptyCsv | HeaderOnlyCsv | SixRowsCsv | FiveRowsCsv | Latin1Csv | RaggedCsv
  | MixedCsv | GapsCsv | BigIdCsv

fun stream_bytes :: "sample_stream \<Rightarrow> string" where
  "stream_bytes EmptyCsv = empty_csv"
| "stream_bytes HeaderOnlyCsv = header_only_csv"
| "stream_bytes SixRowsCsv = six_rows_csv"
| "stream_bytes FiveRowsCsv = five_rows_csv"
| "stream_bytes Latin1Csv = latin1_csv"
| "stream_bytes RaggedCsv = ragged_csv"
| "stream_bytes MixedCsv = mixed_csv"
| "stream_bytes GapsCsv = gaps_csv"
| "stream_bytes BigIdCsv = big_id_csv"

text \<open>
  The objects handed to \<open>load_csv\<close> in the examples: an uploaded file over one of these
  streams, as Streamlit's \<open>UploadedFile\<close> is, with its pointer at the start or at the end
  of the stream; or an object that is no file at all, such as the integer \<open>123\<close>.
\<close>

datatype pointer = AtStart | AtEnd

datatype sample_file = Upload sample_stream pointer | NotAFile

text \<open>
  \<open>seek(0)\<close> puts the pointer of an upload at the start. An object that is no file has
  no \<open>seek\<close>: the call raises \<open>AttributeError\<close>.
\<close>

fun sample_seek :: "sample_file \<Rightarrow> exn + sample_file" where
  "sample_seek (Upload st p) = Inr (Upload st AtStart)"
| "sample_seek NotAFile = Inl (OtherException ''AttributeError'')"

text \<open>The tables pandas makes of the streams.\<close>

definition header_only_df :: dataframe where
  "header_only_df =
     [\<lparr>cname = ''a'', cdata = ObjectCol []\<rparr>, \<lparr>cname = ''b'', cdata = ObjectCol []\<rparr>]"

definition six_rows_df :: dataframe where
  "six_rows_df = [\<lparr>cname = ''n'', cdata = Int64Col [1, 2, 3, 4, 5, 6]\<rparr>]"

definition five_rows_df :: dataframe where
  "five_rows_df = [\<lparr>cname = ''n'', cdata = Int64Col [1, 2, 3, 4, 5]\<rparr>]"

definition latin1_df :: dataframe where
  "latin1_df = [\<lparr>cname = ''n'', cdata = ObjectCol [PyStr [CHR 0xE9]]\<rparr>]"

definition mixed_df :: dataframe where
  "mixed_df =
     [\<lparr>cname = ''k'', cdata = Int64Col [1, 2]\<rparr>,
      \<lparr>cname = ''v'', cdata = ObjectCol [PyStr ''1'', PyStr ''abc'']\<rparr>]"

definition gaps_df :: dataframe where
  "gaps_df =
     [\<lparr>cname = ''k'',
        cdata = ObjectCol [PyStr ''a'', PyStr ''b'', PyStr ''c'', PyStr ''d'', PyStr ''e'']\<rparr>,
      \<lparr>cname = ''v'', cdata = Float64Col [Some 1, Some 2, Some 3, None, Some 5]\<rparr>]"

definition big_id_df :: dataframe where
  "big_id_df = [\<lparr>cname = ''id'', cdata = ObjectCol [PyStr ''13007854817840016671868'']\<rparr>]"

text \<open>
  \<open>pd.read_csv\<close> on these streams, read from the start: no bytes raise
  \<open>EmptyDataError\<close>; a header without rows gives a table of \<open>object\<close> columns without
  rows; the byte \<open>0xE9\<close> is not UTF-8 and is a letter in latin-1; a row longer than the
  header raises \<open>ParserError\<close>; a column of integers is \<open>int64\<close>, a column with a gap
  \<open>float64\<close>, a column with a word \<open>object\<close>, and so is a column with an integer beyond
  64 bits, kept as a string.
\<close>

fun sample_parse :: "encoding \<Rightarrow> sample_stream \<Rightarrow> exn + dataframe" where
  "sample_parse enc EmptyCsv = Inl EmptyDataError"
| "sample_parse enc HeaderOnlyCsv = Inr header_only_df"
| "sample_parse enc SixRowsCsv = Inr six_rows_df"
| "sample_parse enc FiveRowsCsv = Inr five_rows_df"
| "sample_parse DefaultEncoding Latin1Csv = Inl UnicodeDecodeError"
| "sample_parse Latin1 Latin1Csv = Inr latin1_df"
| "sample_parse enc RaggedCsv = Inl ParserError"
| "sample_parse enc MixedCsv = Inr mixed_df"
| "sample_parse enc GapsCsv = Inr gaps_df"
| "sample_parse enc BigIdCsv = Inr big_id_df"

text \<open>
  Reading an upload from the start parses its stream and leaves the pointer at the end;
  read from the end, nothing is left to parse and \<open>EmptyDataError\<close> is raised. Given an
  object that is no file, \<open>pd.read_csv\<close> raises \<open>ValueError\<close> (invalid file path or
  buffer object type).
\<close>

fun sample_read_csv :: "encoding \<Rightarrow> sample_file \<Rightarrow> (exn + dataframe) \<times> sample_file" where
  "sample_read_csv enc (Upload st AtStart) = (sample_parse enc st, Upload st AtEnd)"
| "sample_read_csv enc (Upload st AtEnd) = (Inl EmptyDataError, Upload st AtEnd)"
| "sample_read_csv enc NotAFile = (Inl (OtherException ''ValueError''), NotAFile)"

text \<open>\<open>to_csv(index=False)\<close> on the two tables of integers.\<close>

definition sample_to_csv :: "dataframe \<Rightarrow> string" where
  "sample_to_csv df =
     (if df = six_rows_df then six_rows_csv
      else if df = five_rows_df then five_rows_csv
      else [])"

text \<open>
  \<open>pd.to_numeric\<close> on the strings of the examples: the numerals convert, a word such as
  \<open>abc\<close> does not.
\<close>

definition sample_parse_number :: "string \<Rightarrow> real option" where
  "sample_parse_number s =
     (if s = ''1'' then Some 1
      else if s = ''2.5'' then Some (5 / 2)
      else if s = ''13007854817840016671868'' then Some 13007854817840016671868
      else None)"

text \<open>The libraries with every engine at work, and with Altair missing.\<close>

definition sample_lib :: "sample_file lib" where
  "sample_lib =
     \<lparr>seek = sample_seek,
      read_csv = sample_read_csv,
      st_error = (\<lambda>m. None),
      select_dtypes_exn = (\<lambda>df. None),
      is_numeric_dtype_exn = (\<lambda>c. None),
      parse_number = sample_parse_number,
      to_csv = sample_to_csv,
      altair_exn = (\<lambda>d b. None),
      pyplot_exn = (\<lambda>d b. None)\<rparr>"

definition no_altair_lib :: "sample_file lib" where
  "no_altair_lib =
     sample_lib\<lparr>altair_exn := (\<lambda>d b. Some (OtherException ''ModuleNotFoundError''))\<rparr>"

text \<open>
  A run of \<open>main\<close> on the file of six rows, with the first rows on display and the least
  number of rows that the sidebar allows.
\<close>

definition six_rows_run :: "sample_file widgets" where
  "six_rows_run =
     \<lparr>show_head = True, max_rows = 5, uploaded_file = Some (Upload SixRowsCsv AtStart),
      sample_button = False, show_stats = False, selected_index = 0,
      chart_choice = LineSerie, agg_option = False, hist_bins = 30\<rparr>"

text \<open>A series of two present values, \<open>0\<close> and \<open>10\<close>.\<close>

definition two_points :: series where
  "two_points = [(0, Some 0), (1, Some 10)]"

section \<open>Properties of load_csv\<close>

lemma give_up_returns:
  "(\<forall>e. st_error L m = Some e \<longrightarrow> is_Exception e) \<Longrightarrow>
   fst (give_up L se m tr) = Inr None"
  by (auto simp: give_up_def split: option.splits)

lemma give_up_shown:
  "st_error L m = None \<Longrightarrow> give_up L True m tr = (Inr None, tr @ [Shown m])"
  by (simp add: give_up_def)

lemma give_up_silent:
  "give_up L False m tr = (Inr None, tr)"
  by (simp add: give_up_def)

lemma retry_latin1_returns:
  assumes "raises_Exceptions_only L"
  shows "\<exists>r. fst (retry_latin1 L se f tr) = Inr r"
proof (cases "seek L f")
  case (Inl e)
  then have "is_Exception e" using assms by (auto simp: raises_Exceptions_only_def)
  moreover have "fst (give_up L se MsgEncoding (tr @ [Seek0])) = Inr None"
    using assms by (intro give_up_returns) (auto simp: raises_Exceptions_only_def)
  ultimately show ?thesis using Inl by (simp add: retry_latin1_def)
next
  case (Inr f')
  obtain r f'' where rd: "read_csv L Latin1 f' = (r, f'')" by (cases "read_csv L Latin1 f'")
  show ?thesis
  proof (cases r)
    case (Inl e)
    then have "is_Exception e" using assms rd
      by (auto simp: raises_Exceptions_only_def dest!: spec[of _ Latin1] spec[of _ f'])
    moreover have "fst (give_up L se MsgEncoding (tr @ [Seek0, ReadCsv Latin1])) = Inr None"
      using assms by (intro give_up_returns) (auto simp: raises_Exceptions_only_def)
    ultimately show ?thesis using Inl Inr rd by (simp add: retry_latin1_def)
  next
    case (Inr df)
    then show ?thesis using \<open>seek L f = Inr f'\<close> rd by (simp add: retry_latin1_def)
  qed
qed

lemma first_read_returns:
  assumes "raises_Exceptions_only L"
  shows "\<exists>r. fst (first_read L se f tr) = Inr r"
proof -
  obtain r f' where rd: "read_csv L DefaultEncoding f = (r, f')"
    by (cases "read_csv L DefaultEncoding f")
  have g: "\<And>m tr'. fst (give_up L se m tr') = Inr None"
    using assms by (intro give_up_returns) (auto simp: raises_Exceptions_only_def)
  show ?thesis
  proof (cases r)
    case (Inl e)
    have "is_Exception e" using assms rd Inl
      by (auto simp: raises_Exceptions_only_def dest!: spec[of _ DefaultEncoding] spec[of _ f])
    then show ?thesis
      using Inl rd g retry_latin1_returns[OF assms, of se f' "tr @ [ReadCsv DefaultEncoding]"]
      by (auto simp: first_read_def)
  next
    case (Inr df)
    then show ?thesis using rd by (simp add: first_read_def)
  qed
qed

lemma load_csv_returns:
  assumes "raises_Exceptions_only L"
  shows "\<exists>r. fst (load_csv L file se) = Inr r"
proof (cases "file")
  case None
  have "fst (give_up L se MsgNoFile []) = Inr None"
    using assms by (intro give_up_returns) (auto simp: raises_Exceptions_only_def)
  then show ?thesis using None by (simp add: load_csv_def)
next
  case (Some f)
  show ?thesis
  proof (cases "seek L f")
    case (Inl e)
    then have "is_Exception e" using assms by (auto simp: raises_Exceptions_only_def)
    then show ?thesis using Some Inl first_read_returns[OF assms, of se f "[Seek0]"]
      by (simp add: load_csv_def)
  next
    case (Inr f')
    then show ?thesis using Some first_read_returns[OF assms, of se f' "[Seek0]"]
      by (simp add: load_csv_def)
  qed
qed


lemma load_csv_Some:
  "(\<forall>e. seek L f = Inl e \<longrightarrow> is_Exception e) \<Longrightarrow>
   load_csv L (Some f) se = first_read L se (rewound L f) [Seek0]"
  by (auto simp: load_csv_def rewound_def split: sum.splits)

lemma first_read_success:
  "fst (read_csv L DefaultEncoding f) = Inr df \<Longrightarrow>
   first_read L se f tr = (Inr (Some df), tr @ [ReadCsv DefaultEncoding])"
  by (cases "read_csv L DefaultEncoding f") (simp add: first_read_def)

lemma first_read_empty:
  "fst (read_csv L DefaultEncoding f) = Inl EmptyDataError \<Longrightarrow>
   first_read L se f tr = give_up L se MsgEmpty (tr @ [ReadCsv DefaultEncoding])"
  by (cases "read_csv L DefaultEncoding f") (simp add: first_read_def)

lemma first_read_parser_error:
  "fst (read_csv L DefaultEncoding f) = Inl ParserError \<Longrightarrow>
   first_read L se f tr = give_up L se MsgParse (tr @ [ReadCsv DefaultEncoding])"
  by (cases "read_csv L DefaultEncoding f") (simp add: first_read_def)

lemma first_read_unknown:
  "fst (read_csv L DefaultEncoding f) = Inl e \<Longrightarrow> is_Exception e \<Longrightarrow>
   e \<noteq> EmptyDataError \<Longrightarrow> e \<noteq> UnicodeDecodeError \<Longrightarrow> e \<noteq> ParserError \<Longrightarrow>
   first_read L se f tr = give_up L se (MsgUnknown e) (tr @ [ReadCsv DefaultEncoding])"
  by (cases "read_csv L DefaultEncoding f") (simp add: first_read_def)

lemma first_read_decode_error:
  "read_csv L DefaultEncoding f = (Inl UnicodeDecodeError, f') \<Longrightarrow>
   first_read L se f tr = retry_latin1 L se f' (tr @ [ReadCsv DefaultEncoding])"
  by (simp add: first_read_def)

lemma give_up_trace:
  "Shown m \<in> set (snd (give_up L se m' tr)) \<Longrightarrow>
   Shown m \<in> set tr \<or> (se \<and> st_error L m = None)"
  by (auto simp: give_up_def split: if_splits option.splits)

lemma retry_latin1_trace:
  "Shown m \<in> set (snd (retry_latin1 L se f tr)) \<Longrightarrow>
   Shown m \<in> set tr \<or> (se \<and> st_error L m = None)"
  by (auto simp: retry_latin1_def split: sum.splits if_splits prod.splits
      dest!: give_up_trace)

lemma first_read_trace:
  "Shown m \<in> set (snd (first_read L se f tr)) \<Longrightarrow>
   Shown m \<in> set tr \<or> (se \<and> st_error L m = None)"
  by (auto simp: first_read_def split: sum.splits if_splits prod.splits
      dest!: give_up_trace retry_latin1_trace)

lemma load_csv_trace:
  "Shown m \<in> set (snd (load_csv L file se)) \<Longrightarrow> se \<and> st_error L m = None"
  by (auto simp: load_csv_def split: option.splits sum.splits if_splits
      dest!: give_up_trace first_read_trace)

lemma retry_latin1_outcome:
  assumes "raises_Exceptions_only L" and "st_error L MsgEncoding = None"
  shows "(\<exists>df tr'. retry_latin1 L True f tr = (Inr (Some df), tr')) \<or>
         (\<exists>tr'. retry_latin1 L True f tr = (Inr None, tr' @ [Shown MsgEncoding]))"
proof (cases "seek L f")
  case (Inl e)
  then have "is_Exception e" using assms(1) by (auto simp: raises_Exceptions_only_def)
  then show ?thesis using Inl assms(2) by (simp add: retry_latin1_def give_up_shown)
next
  case (Inr f')
  obtain r f'' where rd: "read_csv L Latin1 f' = (r, f'')" by (cases "read_csv L Latin1 f'")
  show ?thesis
  proof (cases r)
    case (Inl e)
    then have "is_Exception e" using assms(1) rd
      by (auto simp: raises_Exceptions_only_def dest!: spec[of _ Latin1] spec[of _ f'])
    then show ?thesis using Inl Inr rd assms(2) by (simp add: retry_latin1_def give_up_shown)
  next
    case (Inr df)
    then show ?thesis using \<open>seek L f = Inr f'\<close> rd by (simp add: retry_latin1_def)
  qed
qed

lemma sample_lib_fields:
  "seek sample_lib = sample_seek"
  "read_csv sample_lib = sample_read_csv"
  "st_error sample_lib m = None"
  "select_dtypes_exn sample_lib df = None"
  "parse_number sample_lib = sample_parse_number"
  "to_csv sample_lib = sample_to_csv"
  "altair_exn sample_lib d b = None"
  "pyplot_exn sample_lib d b = None"
  by (simp_all add: sample_lib_def)

lemma sample_seek_Exception: "sample_seek f = Inl e \<Longrightarrow> is_Exception e"
  by (cases f) auto

lemma sample_parse_Exception: "sample_parse enc st = Inl e \<Longrightarrow> is_Exception e"
  by (cases st; cases enc) auto

lemma sample_read_Exception: "fst (sample_read_csv enc f) = Inl e \<Longrightarrow> is_Exception e"
proof (cases f)
  case (Upload st p)
  then show "fst (sample_read_csv enc f) = Inl e \<Longrightarrow> is_Exception e"
    by (cases p) (auto dest: sample_parse_Exception)
next
  case NotAFile
  then show "fst (sample_read_csv enc f) = Inl e \<Longrightarrow> is_Exception e" by auto
qed

lemma sample_lib_raises_Exceptions_only: "raises_Exceptions_only sample_lib"
  by (auto simp: raises_Exceptions_only_def sample_lib_fields
      dest: sample_seek_Exception sample_read_Exception)

lemma sample_rewound:
  "rewound sample_lib (Upload st p) = Upload st AtStart"
  "rewound sample_lib NotAFile = NotAFile"
  by (simp_all add: rewound_def sample_lib_fields)

lemma sample_load_csv:
  "load_csv sample_lib (Some (Upload st p)) se
     = first_read sample_lib se (Upload st AtStart) [Seek0]"
  "load_csv sample_lib (Some NotAFile) se = first_read sample_lib se NotAFile [Seek0]"
  by (simp_all add: load_csv_def sample_lib_fields)

lemma sample_first_read:
  "first_read sample_lib se (Upload EmptyCsv AtStart) tr
     = give_up sample_lib se MsgEmpty (tr @ [ReadCsv DefaultEncoding])"
  "first_read sample_lib se (Upload RaggedCsv AtStart) tr
     = give_up sample_lib se MsgParse (tr @ [ReadCsv DefaultEncoding])"
  "first_read sample_lib se NotAFile tr
     = give_up sample_lib se (MsgUnknown (OtherException ''ValueError''))
         (tr @ [ReadCsv DefaultEncoding])"
  "sample_parse DefaultEncoding st = Inr df \<Longrightarrow>
   first_read sample_lib se (Upload st AtStart) tr
     = (Inr (Some df), tr @ [ReadCsv DefaultEncoding])"
  by (simp_all add: first_read_def sample_lib_fields)

lemma sample_give_up:
  "give_up sample_lib True m tr = (Inr None, tr @ [Shown m])"
  "give_up sample_lib False m tr = (Inr None, tr)"
  by (simp_all add: give_up_def sample_lib_fields)

text \<open>
  Claim C6 asks that the caller always receive a table or a tagged failure. What
  \<open>load_csv\<close> returns on a failure is \<open>None\<close>, whatever the failure: an empty file, a
  ragged file and an object that is no file give the same value, and with \<open>show_error\<close>
  unset nothing else tells them apart.
\<close>

theorem failure_returned_without_tag:
  "load_csv sample_lib (Some (Upload EmptyCsv AtStart)) False
     = (Inr None, [Seek0, ReadCsv DefaultEncoding]) \<and>
   load_csv sample_lib (Some (Upload RaggedCsv AtStart)) False
     = (Inr None, [Seek0, ReadCsv DefaultEncoding]) \<and>
   load_csv sample_lib (Some NotAFile) False
     = (Inr None, [Seek0, ReadCsv DefaultEncoding]) \<and>
   fst (load_csv sample_lib (Some (Upload EmptyCsv AtStart)) True) = Inr None \<and>
   fst (load_csv sample_lib (Some (Upload RaggedCsv AtStart)) True) = Inr None \<and>
   fst (load_csv sample_lib (Some NotAFile) True) = Inr None"
  by (simp add: sample_load_csv sample_first_read sample_give_up)

text \<open>
  Claim C6, as the code has it. Whatever the file (absent, empty, malformed, wrongly
  encoded) and whatever the libraries raise, as long as it is an \<open>Exception\<close>,
  \<open>load_csv\<close> returns, and returns \<open>None\<close> or a table. The value returned carries no
  tag. The kind of the failure is told by the message displayed, and a message is
  displayed only when \<open>show_error\<close> is set and \<open>st.error\<close> does not raise: then an absent
  file, an empty file and a parse error display their message, a decode error whose
  retry fails displays the encoding message, and an exception that no earlier handler
  names displays the "unknown" message with the exception as its detail.
\<close>

theorem load_csv_no_exception_escapes:
  assumes "raises_Exceptions_only L"
  shows "(\<exists>tr. load_csv L file show_error = (Inr None, tr) \<or>
              (\<exists>df. load_csv L file show_error = (Inr (Some df), tr))) \<and>
         (\<forall>m. Shown m \<in> set (snd (load_csv L file show_error)) \<longrightarrow>
              show_error \<and> st_error L m = None) \<and>
         (file = None \<and> st_error L MsgNoFile = None \<longrightarrow>
            load_csv L file True = (Inr None, [Shown MsgNoFile])) \<and>
         (\<forall>f. file = Some f \<and>
            fst (read_csv L DefaultEncoding (rewound L f)) = Inl EmptyDataError \<and>
            st_error L MsgEmpty = None \<longrightarrow>
            load_csv L file True =
              (Inr None, [Seek0, ReadCsv DefaultEncoding, Shown MsgEmpty])) \<and>
         (\<forall>f. file = Some f \<and>
            fst (read_csv L DefaultEncoding (rewound L f)) = Inl ParserError \<and>
            st_error L MsgParse = None \<longrightarrow>
            load_csv L file True =
              (Inr None, [Seek0, ReadCsv DefaultEncoding, Shown MsgParse])) \<and>
         (\<forall>f. file = Some f \<and>
            fst (read_csv L DefaultEncoding (rewound L f)) = Inl UnicodeDecodeError \<and>
            st_error L MsgEncoding = None \<longrightarrow>
            (\<exists>df tr. load_csv L file True = (Inr (Some df), tr)) \<or>
            (\<exists>tr. load_csv L file True = (Inr None, tr @ [Shown MsgEncoding]))) \<and>
         (\<forall>f e. file = Some f \<and> fst (read_csv L DefaultEncoding (rewound L f)) = Inl e \<and>
            e \<noteq> EmptyDataError \<and> e \<noteq> UnicodeDecodeError \<and> e \<noteq> ParserError \<and>
            st_error L (MsgUnknown e) = None \<longrightarrow>
            load_csv L file True =
              (Inr None, [Seek0, ReadCsv DefaultEncoding, Shown (MsgUnknown e)]))"
proof -
  have sk: "\<forall>e. seek L f = Inl e \<longrightarrow> is_Exception e" for f
    using assms by (auto simp: raises_Exceptions_only_def)
  note some = load_csv_Some[OF sk]
  obtain r where "fst (load_csv L file show_error) = Inr r"
    using load_csv_returns[OF assms] by blast
  then have c1: "\<exists>tr. load_csv L file show_error = (Inr None, tr) \<or>
              (\<exists>df. load_csv L file show_error = (Inr (Some df), tr))"
    by (cases "load_csv L file show_error"; cases r) auto
  have c2: "\<forall>m. Shown m \<in> set (snd (load_csv L file show_error)) \<longrightarrow>
              show_error \<and> st_error L m = None"
    using load_csv_trace by blast
  have c3: "file = None \<and> st_error L MsgNoFile = None \<longrightarrow>
            load_csv L file True = (Inr None, [Shown MsgNoFile])"
    by (simp add: load_csv_def give_up_shown)
  have c4: "\<forall>f. file = Some f \<and>
            fst (read_csv L DefaultEncoding (rewound L f)) = Inl EmptyDataError \<and>
            st_error L MsgEmpty = None \<longrightarrow>
            load_csv L file True =
              (Inr None, [Seek0, ReadCsv DefaultEncoding, Shown MsgEmpty])"
    by (simp add: some first_read_empty give_up_shown)
  have c5: "\<forall>f. file = Some f \<and>
            fst (read_csv L DefaultEncoding (rewound L f)) = Inl ParserError \<and>
            st_error L MsgParse = None \<longrightarrow>
            load_csv L file True =
              (Inr None, [Seek0, ReadCsv DefaultEncoding, Shown MsgParse])"
    by (simp add: some first_read_parser_error give_up_shown)
  have c6: "\<forall>f. file = Some f \<and>
            fst (read_csv L DefaultEncoding (rewound L f)) = Inl UnicodeDecodeError \<and>
            st_error L MsgEncoding = None \<longrightarrow>
            (\<exists>df tr. load_csv L file True = (Inr (Some df), tr)) \<or>
            (\<exists>tr. load_csv L file True = (Inr None, tr @ [Shown MsgEncoding]))"
  proof (intro allI impI)
    fix f
    assume h: "file = Some f \<and>
            fst (read_csv L DefaultEncoding (rewound L f)) = Inl UnicodeDecodeError \<and>
            st_error L MsgEncoding = None"
    obtain f2 where rd: "read_csv L DefaultEncoding (rewound L f) = (Inl UnicodeDecodeError, f2)"
      using h by (cases "read_csv L DefaultEncoding (rewound L f)") auto
    have "load_csv L file True = retry_latin1 L True f2 [Seek0, ReadCsv DefaultEncoding]"
      using h rd by (simp add: some first_read_decode_error)
    then show "(\<exists>df tr. load_csv L file True = (Inr (Some df), tr)) \<or>
            (\<exists>tr. load_csv L file True = (Inr None, tr @ [Shown MsgEncoding]))"
      using retry_latin1_outcome[OF assms, of f2 "[Seek0, ReadCsv DefaultEncoding]"] h
      by simp
  qed
  have c7: "\<forall>f e. file = Some f \<and> fst (read_csv L DefaultEncoding (rewound L f)) = Inl e \<and>
            e \<noteq> EmptyDataError \<and> e \<noteq> UnicodeDecodeError \<and> e \<noteq> ParserError \<and>
            st_error L (MsgUnknown e) = None \<longrightarrow>
            load_csv L file True =
              (Inr None, [Seek0, ReadCsv DefaultEncoding, Shown (MsgUnknown e)])"
  proof (intro allI impI)
    fix f e
    assume h: "file = Some f \<and> fst (read_csv L DefaultEncoding (rewound L f)) = Inl e \<and>
            e \<noteq> EmptyDataError \<and> e \<noteq> UnicodeDecodeError \<and> e \<noteq> ParserError \<and>
            st_error L (MsgUnknown e) = None"
    have ex: "is_Exception e" using assms h
      by (auto simp: raises_Exceptions_only_def)
    show "load_csv L file True =
          (Inr None, [Seek0, ReadCsv DefaultEncoding, Shown (MsgUnknown e)])"
      using h ex by (simp add: some first_read_unknown give_up_shown)
  qed
  show ?thesis by (intro conjI c1 c2 c3 c4 c5 c6 c7)
qed

theorem load_csv_no_exception_escapes_witness:
  "raises_Exceptions_only sample_lib \<and>
   load_csv sample_lib None True = (Inr None, [Shown MsgNoFile]) \<and>
   load_csv sample_lib (Some (Upload EmptyCsv AtStart)) True =
     (Inr None, [Seek0, ReadCsv DefaultEncoding, Shown MsgEmpty]) \<and>
   load_csv sample_lib (Some (Upload RaggedCsv AtStart)) True =
     (Inr None, [Seek0, ReadCsv DefaultEncoding, Shown MsgParse]) \<and>
   load_csv sample_lib (Some NotAFile) True =
     (Inr None,
      [Seek0, ReadCsv DefaultEncoding, Shown (MsgUnknown (OtherException ''ValueError''))]) \<and>
   load_csv sample_lib (Some (Upload SixRowsCsv AtStart)) True =
     (Inr (Some six_rows_df), [Seek0, ReadCsv DefaultEncoding])"
proof -
  note t = load_csv_no_exception_escapes[OF sample_lib_raises_Exceptions_only]
  have a: "load_csv sample_lib None True = (Inr None, [Shown MsgNoFile])"
    using t[of None True] by (simp add: sample_lib_fields)
  have b: "load_csv sample_lib (Some (Upload EmptyCsv AtStart)) True =
     (Inr None, [Seek0, ReadCsv DefaultEncoding, Shown MsgEmpty])"
    using t[of "Some (Upload EmptyCsv AtStart)" True]
    by (simp add: sample_lib_fields sample_rewound)
  have c: "load_csv sample_lib (Some (Upload RaggedCsv AtStart)) True =
     (Inr None, [Seek0, ReadCsv DefaultEncoding, Shown MsgParse])"
    using t[of "Some (Upload RaggedCsv AtStart)" True]
    by (simp add: sample_lib_fields sample_rewound)
  have d: "load_csv sample_lib (Some NotAFile) True =
     (Inr None,
      [Seek0, ReadCsv DefaultEncoding, Shown (MsgUnknown (OtherException ''ValueError''))])"
    using t[of "Some NotAFile" True]
    by (simp add: sample_lib_fields sample_rewound)
  have e: "load_csv sample_lib (Some (Upload SixRowsCsv AtStart)) True =
     (Inr (Some six_rows_df), [Seek0, ReadCsv DefaultEncoding])"
    by (simp add: sample_load_csv sample_first_read)
  show ?thesis using sample_lib_raises_Exceptions_only a b c d e by simp
qed

text \<open>
  Claim C7. When the first read raises a decode error, \<open>load_csv\<close> rewinds the file and
  reads it again, once, as latin-1: the effects are a seek, the first read, a seek and
  the latin-1 read of the rewound file, in this order. The table of that second read is
  returned; when the second read raises, \<open>None\<close> is returned after the encoding message,
  and nothing is raised.
\<close>

theorem decode_error_retried_once_as_latin1:
  assumes "read_csv L DefaultEncoding (rewound L f) = (Inl UnicodeDecodeError, f2)"
    and "seek L f2 = Inr f3"
    and "\<forall>e. seek L f = Inl e \<longrightarrow> is_Exception e"
    and "\<forall>e. fst (read_csv L Latin1 f3) = Inl e \<longrightarrow> is_Exception e"
    and "\<forall>e. st_error L MsgEncoding = Some e \<longrightarrow> is_Exception e"
  shows "load_csv L (Some f) show_error =
           (case fst (read_csv L Latin1 f3) of
              Inr df \<Rightarrow>
                (Inr (Some df), [Seek0, ReadCsv DefaultEncoding, Seek0, ReadCsv Latin1])
            | Inl e \<Rightarrow>
                (Inr None,
                 [Seek0, ReadCsv DefaultEncoding, Seek0, ReadCsv Latin1]
                 @ (if show_error \<and> st_error L MsgEncoding = None
                    then [Shown MsgEncoding] else [])))"
proof -
  obtain r f4 where rd: "read_csv L Latin1 f3 = (r, f4)"
    by (cases "read_csv L Latin1 f3")
  have start: "load_csv L (Some f) show_error =
      retry_latin1 L show_error f2 [Seek0, ReadCsv DefaultEncoding]"
    using assms(1) by (simp add: load_csv_Some[OF assms(3)] first_read_decode_error)
  show ?thesis
  proof (cases r)
    case (Inl e)
    then have "is_Exception e" using assms(4) rd by simp
    then show ?thesis
      using Inl rd assms(2,5) unfolding start
      by (auto simp: retry_latin1_def give_up_def split: option.splits)
  next
    case (Inr df)
    then show ?thesis using rd assms(2) unfolding start by (simp add: retry_latin1_def)
  qed
qed

theorem decode_error_retried_once_as_latin1_witness:
  "read_csv sample_lib DefaultEncoding (rewound sample_lib (Upload Latin1Csv AtStart))
     = (Inl UnicodeDecodeError, Upload Latin1Csv AtEnd) \<and>
   seek sample_lib (Upload Latin1Csv AtEnd) = Inr (Upload Latin1Csv AtStart) \<and>
   load_csv sample_lib (Some (Upload Latin1Csv AtStart)) True =
     (Inr (Some latin1_df), [Seek0, ReadCsv DefaultEncoding, Seek0, ReadCsv Latin1])"
proof -
  have a: "read_csv sample_lib DefaultEncoding (rewound sample_lib (Upload Latin1Csv AtStart))
     = (Inl UnicodeDecodeError, Upload Latin1Csv AtEnd)"
    by (simp add: sample_rewound sample_lib_fields)
  have b: "seek sample_lib (Upload Latin1Csv AtEnd) = Inr (Upload Latin1Csv AtStart)"
    by (simp add: sample_lib_fields)
  have c: "\<forall>e. seek sample_lib (Upload Latin1Csv AtStart) = Inl e \<longrightarrow> is_Exception e"
    by (simp add: sample_lib_fields)
  have d: "\<forall>e. fst (read_csv sample_lib Latin1 (Upload Latin1Csv AtStart)) = Inl e
      \<longrightarrow> is_Exception e"
    by (simp add: sample_lib_fields)
  have e: "\<forall>e. st_error sample_lib MsgEncoding = Some e \<longrightarrow> is_Exception e"
    by (simp add: sample_lib_fields)
  show ?thesis
    using decode_error_retried_once_as_latin1[OF a b c d e, of True] a b
    by (simp add: sample_lib_fields)
qed

text \<open>
  When the file cannot be rewound for the retry, no second read is made and the encoding
  message is what the caller gets.
\<close>

lemma decode_error_without_rewind:
  assumes "read_csv L DefaultEncoding (rewound L f) = (Inl UnicodeDecodeError, f2)"
    and "seek L f2 = Inl e" and "is_Exception e"
    and "\<forall>e. seek L f = Inl e \<longrightarrow> is_Exception e"
    and "st_error L MsgEncoding = None"
  shows "load_csv L (Some f) True =
           (Inr None, [Seek0, ReadCsv DefaultEncoding, Seek0, Shown MsgEncoding])"
  using assms(1,2,3,5)
  by (simp add: load_csv_Some[OF assms(4)] first_read_decode_error retry_latin1_def
      give_up_shown)

text \<open>
  Without the rewind the second read would start where the first one stopped: on the
  example the pointer is then at the end of the file, where nothing is left to parse.
\<close>

lemma second_read_needs_rewind:
  "fst (read_csv sample_lib Latin1 (Upload Latin1Csv AtEnd)) = Inl EmptyDataError"
  by (simp add: sample_lib_fields)

text \<open>
  Claim C4 asks for a failure whenever the parse has no rows. On a stream that holds a
  header and no row, the parse succeeds with a table of two columns and no rows, and
  \<open>load_csv\<close> returns that table.
\<close>

theorem zero_rows_loaded_as_table:
  "load_csv sample_lib (Some (Upload HeaderOnlyCsv AtStart)) True =
     (Inr (Some header_only_df), [Seek0, ReadCsv DefaultEncoding]) \<and>
   nrows header_only_df = 0 \<and> ncols header_only_df = 2"
  by (simp add: sample_load_csv sample_first_read nrows_def ncols_def header_only_df_def)

text \<open>
  Claim C4, as the code has it. \<open>load_csv\<close> returns no table when no file is given and
  when the parser raises \<open>EmptyDataError\<close>, which is what it does on a stream without
  columns, such as one of zero bytes; the message shown is "no file" or "empty file".
  A parse that succeeds is returned as it is, whatever its number of rows.
\<close>

theorem load_csv_empty_data:
  "((\<forall>e. st_error L MsgNoFile = Some e \<longrightarrow> is_Exception e) \<longrightarrow>
      fst (load_csv L None show_error) = Inr None) \<and>
   (st_error L MsgNoFile = None \<longrightarrow> load_csv L None True = (Inr None, [Shown MsgNoFile])) \<and>
   ((\<forall>e. seek L f = Inl e \<longrightarrow> is_Exception e) \<and>
    fst (read_csv L DefaultEncoding (rewound L f)) = Inl EmptyDataError \<longrightarrow>
      ((\<forall>e. st_error L MsgEmpty = Some e \<longrightarrow> is_Exception e) \<longrightarrow>
         fst (load_csv L (Some f) show_error) = Inr None) \<and>
      (st_error L MsgEmpty = None \<longrightarrow>
         load_csv L (Some f) True =
           (Inr None, [Seek0, ReadCsv DefaultEncoding, Shown MsgEmpty]))) \<and>
   ((\<forall>e. seek L f = Inl e \<longrightarrow> is_Exception e) \<and>
    fst (read_csv L DefaultEncoding (rewound L f)) = Inr df \<longrightarrow>
      load_csv L (Some f) show_error = (Inr (Some df), [Seek0, ReadCsv DefaultEncoding]))"
proof -
  have none: "load_csv L None show_error = give_up L show_error MsgNoFile []"
    "load_csv L None True = give_up L True MsgNoFile []"
    by (simp_all add: load_csv_def)
  have some: "\<forall>e. seek L f = Inl e \<longrightarrow> is_Exception e \<Longrightarrow>
      load_csv L (Some f) se = first_read L se (rewound L f) [Seek0]" for se
    by (rule load_csv_Some)
  show ?thesis
    by (auto simp: none some first_read_empty first_read_success give_up_returns
        give_up_shown)
qed

theorem load_csv_empty_data_witness:
  "load_csv sample_lib None True = (Inr None, [Shown MsgNoFile]) \<and>
   fst (read_csv sample_lib DefaultEncoding (rewound sample_lib (Upload EmptyCsv AtStart)))
     = Inl EmptyDataError \<and>
   load_csv sample_lib (Some (Upload EmptyCsv AtStart)) True =
     (Inr None, [Seek0, ReadCsv DefaultEncoding, Shown MsgEmpty]) \<and>
   load_csv sample_lib (Some (Upload SixRowsCsv AtStart)) True =
     (Inr (Some six_rows_df), [Seek0, ReadCsv DefaultEncoding])"
  using load_csv_empty_data[where L = sample_lib and f = "Upload EmptyCsv AtStart"
      and show_error = True and df = six_rows_df]
    load_csv_empty_data[where L = sample_lib and f = "Upload SixRowsCsv AtStart"
      and show_error = True and df = six_rows_df]
  by (simp add: sample_lib_fields sample_rewound)

section \<open>Properties of list_numeric_columns\<close>

lemma sample_select_dtypes: "select_dtypes_exn sample_lib df = None"
  by (simp add: sample_lib_def)

lemma sample_parse_number_lib: "parse_number sample_lib = sample_parse_number"
  by (simp add: sample_lib_def)

lemma list_numeric_columns_primary:
  "select_dtypes_exn L df = None \<Longrightarrow>
   list_numeric_columns L (Some df) =
     Inr (map cname (filter (\<lambda>c. is_number_dtype (cdata c)) df))"
  by (simp add: list_numeric_columns_def)



text \<open>
  Claim C10. Without a table (\<open>None\<close>) the classifier returns the empty list and calls
  nothing that could raise; it returns the empty list as well for a table without
  columns.
\<close>

theorem list_numeric_columns_without_table:
  "list_numeric_columns L None = Inr [] \<and>
   ((\<forall>e. select_dtypes_exn L [] = Some e \<longrightarrow> is_Exception e) \<longrightarrow>
      list_numeric_columns L (Some []) = Inr [])"
  by (auto simp: list_numeric_columns_def split: option.splits)

theorem list_numeric_columns_without_table_witness:
  "select_dtypes_exn sample_lib [] = None \<and>
   list_numeric_columns sample_lib None = Inr [] \<and>
   list_numeric_columns sample_lib (Some []) = Inr []"
  using list_numeric_columns_without_table[of sample_lib]
  by (simp add: sample_select_dtypes)




section \<open>Properties of the numeric series\<close>

lemma to_number_float:
  "to_number p (case v of None \<Rightarrow> PyNaN | Some r \<Rightarrow> PyFloat r) = v"
  by (cases v) simp_all

lemma to_numeric_coerce_values:
  "to_numeric_coerce p c = map (to_number p) (col_values c)"
  by (cases c) (simp_all add: to_number_float o_def)

lemma length_col_values: "length (col_values c) = col_length c"
  by (cases c) simp_all

lemma dropna_filter:
  "map (\<lambda>e. (fst e, Some (snd e))) (dropna s) = filter (\<lambda>e. snd e \<noteq> None) s"
  by (induction s rule: dropna.induct) simp_all




lemma dropna_empty_iff: "dropna s = [] \<longleftrightarrow> (\<forall>e\<in>set s. snd e = None)"
  by (induction s rule: dropna.induct) simp_all

text \<open>
  Claim C8. For every column of the table, the series made of it has as many entries as
  the column, labelled by their positions, and the entry at each position is the
  conversion of the column's value at that position: a value that does not convert
  leaves NaN there, and nothing is raised or dropped. This covers a column whose every
  value is missing.
\<close>

theorem col_series_keeps_length_and_positions:
  assumes "getitem df selected = Inr c"
  shows "\<exists>s. col_series L df selected = Inr s \<and>
             length s = col_length (cdata c) \<and>
             (\<forall>i<length s.
                s ! i = (i, to_number (parse_number L) (col_values (cdata c) ! i)))"
  using assms
  by (simp add: col_series_def to_numeric_coerce_values length_col_values nth_enumerate_eq)

theorem col_series_keeps_length_and_positions_witness:
  "getitem mixed_df ''v'' = Inr (mixed_df ! 1) \<and>
   col_series sample_lib mixed_df ''v'' = Inr [(0, Some 1), (1, None)] \<and>
   col_length (cdata (mixed_df ! 1)) = 2"
proof -
  have g: "getitem mixed_df ''v'' = Inr (mixed_df ! 1)"
    by (simp add: getitem_def mixed_df_def)
  obtain s where s: "col_series sample_lib mixed_df ''v'' = Inr s"
    "length s = col_length (cdata (mixed_df ! 1))"
    "\<forall>i<length s. s ! i =
       (i, to_number (parse_number sample_lib) (col_values (cdata (mixed_df ! 1)) ! i))"
    using col_series_keeps_length_and_positions[OF g, of sample_lib] by blast
  have l: "length s = 2" using s(2) by (simp add: mixed_df_def)
  have "s ! 0 = (0, Some 1)" "s ! 1 = (1, None)"
    using s(3) l
    by (simp_all add: mixed_df_def sample_parse_number_lib sample_parse_number_def)
  then have "s = [(0, Some 1), (1, None)]"
    using l by (auto simp: list_eq_iff_nth_eq less_Suc_eq numeral_2_eq_2)
  then show ?thesis using g s(1) by (simp add: mixed_df_def)
qed

text \<open>
  Claim C9. The bar chart plots the first \<open>min 100 k\<close> of the \<open>k\<close> present values of the
  series, in their order and under their index labels: the present values are the
  entries that are not NaN, in the order of the series, and the chart takes the first
  hundred of them.
\<close>

theorem bar_chart_first_100_present:
  "\<exists>pts. bar_chart s = BarChart pts \<and>
          pts = take (min 100 (length (dropna s))) (dropna s) \<and>
          length pts = min 100 (length (dropna s)) \<and>
          map (\<lambda>e. (fst e, Some (snd e))) (dropna s) = filter (\<lambda>e. snd e \<noteq> None) s"
  by (simp add: bar_chart_def head_list_def dropna_filter min_def)

theorem bar_chart_first_100_present_witness:
  "bar_chart [(0, Some 4), (1, None), (2, Some 6)] = BarChart [(0, 4), (2, 6)]"
  using bar_chart_first_100_present[of "[(0, Some 4), (1, None), (2, Some 6)]"]
  by simp














section \<open>Properties of main\<close>

lemma downloaded_append:
  "downloaded (xs @ ys) = (case downloaded xs of None \<Rightarrow> downloaded ys | Some b \<Rightarrow> Some b)"
  by (induction xs rule: downloaded.induct) simp_all

lemma downloaded_preview: "downloaded (preview W df) = None"
  by (simp add: preview_def)

lemma displayed_preview:
  "show_head W \<Longrightarrow> displayed (preview W df @ us) = Some (df_head (max_rows W) df)"
  by (simp add: preview_def)

lemma downloaded_histogram: "histogram L sel s b = Inr us \<Longrightarrow> downloaded us = None"
  by (auto simp: histogram_def split: option.splits if_splits)

lemma downloaded_chart: "chart L W sel s = Inr us \<Longrightarrow> downloaded us = None"
  by (auto simp: chart_def line_chart_def bar_chart_def downloaded_histogram
      split: chart_type.splits)

text \<open>
  Whatever the table and the widgets, the table on display is the first \<open>max_rows\<close> rows
  and the download, when \<open>main\<close> reaches it, is the serialisation of the whole table.
\<close>

lemma explore_download_whole_table:
  assumes "explore L W df = Inr us" and "show_head W"
  shows "displayed us = Some (df_head (max_rows W) df) \<and>
         (downloaded us = None \<or> downloaded us = Some (to_csv L df))"
  using assms
  by (auto simp: explore_def Let_def displayed_preview downloaded_append downloaded_preview
      downloaded_chart download_def split: sum.splits if_splits)

text \<open>
  Claim C5, on the run over the file of six rows with five rows on display. The table
  on display is the first five rows, and the bytes offered for download are the
  serialisation of all six rows: they are the bytes of the file of six rows, and loading
  them gives the table of six rows, not the table on display.
\<close>

theorem download_is_whole_table:
  "main sample_lib six_rows_run =
     Inr [Dimensions 6 1, Dataframe five_rows_df,
          LineChart [(0, 1), (1, 2), (2, 3), (3, 4), (4, 5), (5, 6)],
          DownloadButton six_rows_csv] \<and>
   displayed [Dimensions 6 1, Dataframe five_rows_df,
          LineChart [(0, 1), (1, 2), (2, 3), (3, 4), (4, 5), (5, 6)],
          DownloadButton six_rows_csv] = Some five_rows_df \<and>
   downloaded [Dimensions 6 1, Dataframe five_rows_df,
          LineChart [(0, 1), (1, 2), (2, 3), (3, 4), (4, 5), (5, 6)],
          DownloadButton six_rows_csv] = Some (to_csv sample_lib six_rows_df) \<and>
   to_csv sample_lib six_rows_df \<noteq> to_csv sample_lib five_rows_df \<and>
   to_csv sample_lib six_rows_df = stream_bytes SixRowsCsv \<and>
   fst (load_csv sample_lib (Some (Upload SixRowsCsv AtStart)) True)
     = Inr (Some six_rows_df) \<and>
   nrows six_rows_df = 6 \<and> nrows five_rows_df = 5"
proof -
  have ld: "load_csv sample_lib (Some (Upload SixRowsCsv AtStart)) True
      = (Inr (Some six_rows_df), [Seek0, ReadCsv DefaultEncoding])"
    by (simp add: sample_load_csv sample_first_read)
  have nc: "list_numeric_columns sample_lib (Some six_rows_df) = Inr [''n'']"
    by (simp add: list_numeric_columns_primary sample_select_dtypes six_rows_df_def)
  have cs: "col_series sample_lib six_rows_df ''n'' =
      Inr [(0, Some 1), (1, Some 2), (2, Some 3), (3, Some 4), (4, Some 5), (5, Some 6)]"
    by (simp add: col_series_def getitem_def six_rows_df_def)
  have hd: "df_head 5 six_rows_df = five_rows_df"
    by (simp add: df_head_def head_list_def six_rows_df_def five_rows_df_def)
  have tc: "to_csv sample_lib six_rows_df = six_rows_csv"
    "to_csv sample_lib five_rows_df = five_rows_csv"
    by (simp_all add: sample_lib_def sample_to_csv_def six_rows_df_def five_rows_df_def)
  have ne: "six_rows_csv \<noteq> five_rows_csv"
    by (simp add: six_rows_csv_def five_rows_csv_def)
  have nr: "nrows six_rows_df = 6" "ncols six_rows_df = 1" "nrows five_rows_df = 5"
    by (simp_all add: nrows_def ncols_def six_rows_df_def five_rows_df_def)
  have m: "main sample_lib six_rows_run =
     Inr [Dimensions 6 1, Dataframe five_rows_df,
          LineChart [(0, 1), (1, 2), (2, 3), (3, 4), (4, 5), (5, 6)],
          DownloadButton six_rows_csv]"
    by (simp add: main_def six_rows_run_def ld explore_def nc cs chart_def line_chart_def
        preview_def hd nr download_def tc)
  show ?thesis
    unfolding tc by (simp add: m ld ne nr)
qed

section \<open>Properties of the histogram\<close>

lemma vega_level_30: "\<lceil>log 10 (real_of_int 30)\<rceil> = 2"
  by (simp add: ceiling_eq_iff less_log_iff log_le_iff)

lemma vega_grow_10_30: "vega_grow 10 30 (1 / 10) = 1"
  by (simp add: vega_grow.simps[of 10 30 "1 / 10"] vega_grow.simps[of 10 30 1])

lemma vega_step_10_30: "vega_step 10 30 = 1 / 2"
  using vega_level_30 by (simp add: vega_step_def Let_def vega_grow_10_30)

lemma floor_log_half: "\<lfloor>- log 10 (1 / 2 :: real)\<rfloor> = 0"
  by (simp add: floor_eq_iff log_divide less_log_iff log_less_iff log_le_iff le_log_iff)

lemma vega_bin_0_10_30: "vega_bin [0, 10] 30 = Some (0, 10, 1 / 2)"
  using floor_log_half by (simp add: vega_bin_def Let_def vega_span_def vega_step_10_30)

lemma vega_edges_0_10_30:
  "map_option length (vega_bin_edges [0, 10] 30) = Some 21"
  by (simp add: vega_bin_edges_def vega_bin_0_10_30)

lemma numpy_edges_0_10_30:
  "map_option length (numpy_bin_edges [0, 10] 30) = Some 31"
  by (simp add: numpy_bin_edges_def numpy_outer_edges_def Let_def)

lemma no_altair_lib_simps:
  "altair_exn no_altair_lib d b = Some (OtherException ''ModuleNotFoundError'')"
  "pyplot_exn no_altair_lib d b = None"
  "altair_exn sample_lib d b = None"
  by (simp_all add: no_altair_lib_def sample_lib_def)

lemma numpy_outer_edges_apart: "fst (numpy_outer_edges xs) < snd (numpy_outer_edges xs)"
proof (cases "xs = []")
  case True
  then show ?thesis by (simp add: numpy_outer_edges_def)
next
  case False
  then have "hd xs \<in> set xs" by simp
  then have "Min (set xs) \<le> hd xs" "hd xs \<le> Max (set xs)" by simp_all
  then have le: "Min (set xs) \<le> Max (set xs)" by linarith
  show ?thesis
  proof (cases "Min (set xs) = Max (set xs)")
    case True
    then show ?thesis using False by (simp add: numpy_outer_edges_def)
  next
    case ne: False
    then have "Min (set xs) < Max (set xs)" using le by linarith
    then show ?thesis using False ne by (simp add: numpy_outer_edges_def)
  qed
qed

lemma numpy_bin_edges_shape:
  assumes "1 \<le> bins"
  shows "\<exists>es. numpy_bin_edges xs bins = Some es \<and> length es = nat bins + 1 \<and>
            hd es = fst (numpy_outer_edges xs) \<and> last es = snd (numpy_outer_edges xs) \<and>
            (\<forall>i<nat bins. es ! Suc i - es ! i
               = (snd (numpy_outer_edges xs) - fst (numpy_outer_edges xs)) / real_of_int bins)"
proof -
  define lo where "lo = fst (numpy_outer_edges xs)"
  define hi where "hi = snd (numpy_outer_edges xs)"
  define f where "f = (\<lambda>i::nat. lo + real i * ((hi - lo) / real_of_int bins))"
  have b: "real (nat bins) = real_of_int bins" "real_of_int bins \<noteq> 0" using assms by simp_all
  have e: "numpy_bin_edges xs bins = Some (map f [0..<nat bins + 1])"
    using assms by (simp add: numpy_bin_edges_def Let_def f_def lo_def hi_def del: upt_Suc)
  have h: "hd (map f [0..<nat bins + 1]) = lo"
    by (simp add: f_def hd_map upt_conv_Cons del: upt_Suc)
  have l: "last (map f [0..<nat bins + 1]) = hi"
    using b by (simp add: f_def)
  have d: "\<forall>i<nat bins. map f [0..<nat bins + 1] ! Suc i - map f [0..<nat bins + 1] ! i
      = (hi - lo) / real_of_int bins"
  proof (intro allI impI)
    fix i assume "i < nat bins"
    then show "map f [0..<nat bins + 1] ! Suc i - map f [0..<nat bins + 1] ! i
        = (hi - lo) / real_of_int bins"
      using b(2) by (simp add: f_def nth_append field_simps del: upt_Suc)
  qed
  show ?thesis using e h l d unfolding lo_def hi_def by simp
qed

lemma vega_grow_post:
  "0 < step \<Longrightarrow> 1 \<le> maxb \<Longrightarrow>
   0 < vega_grow spn maxb step \<and> \<lceil>spn / vega_grow spn maxb step\<rceil> \<le> maxb"
proof (induction spn maxb step rule: vega_grow.induct)
  case (1 spn maxb step)
  show ?case
  proof (cases "maxb < \<lceil>spn / step\<rceil>")
    case True
    then have g: "0 < step \<and> 1 \<le> maxb \<and> maxb < \<lceil>spn / step\<rceil>" using 1(2,3) by simp
    have eq: "vega_grow spn maxb step = vega_grow spn maxb (step * 10)"
      using g by (subst vega_grow.simps) simp
    have "0 < step * 10" using 1(2) by simp
    from 1(1)[OF g this 1(3)] show ?thesis unfolding eq .
  next
    case False
    then have eq: "vega_grow spn maxb step = step"
      by (subst vega_grow.simps) simp
    show ?thesis unfolding eq using False 1(2) by simp
  qed
qed

lemma vega_step_post:
  assumes "1 \<le> maxb"
  shows "0 < vega_step spn maxb \<and> spn / vega_step spn maxb \<le> real_of_int maxb"
proof -
  define step0 :: real where
    "step0 = 10 powi (round (log 10 spn) - \<lceil>log 10 (real_of_int maxb)\<rceil>)"
  define step1 where "step1 = vega_grow spn maxb step0"
  define step2 where
    "step2 = (if spn / (step1 / 5) \<le> real_of_int maxb then step1 / 5 else step1)"
  define step3 where
    "step3 = (if spn / (step2 / 2) \<le> real_of_int maxb then step2 / 2 else step2)"
  have s: "vega_step spn maxb = step3"
    by (simp only: vega_step_def Let_def step0_def step1_def step2_def step3_def)
  have "0 < step0" by (simp add: step0_def zero_less_power_int)
  from vega_grow_post[OF this assms, of spn]
  have p1: "0 < step1" and c1: "\<lceil>spn / step1\<rceil> \<le> maxb" by (simp_all add: step1_def)
  have "spn / step1 \<le> real_of_int \<lceil>spn / step1\<rceil>" by (rule le_of_int_ceiling)
  also have "\<dots> \<le> real_of_int maxb" using c1 by simp
  finally have b1: "spn / step1 \<le> real_of_int maxb" .
  have p2: "0 < step2" and b2: "spn / step2 \<le> real_of_int maxb"
    using p1 b1 by (auto simp: step2_def)
  have "0 < step3" and "spn / step3 \<le> real_of_int maxb"
    using p2 b2 by (auto simp: step3_def)
  then show ?thesis unfolding s by simp
qed

lemma vega_eps_le_one:
  assumes "0 < step"
  shows "0 \<le> (10::real) powi (- (if 1 \<le> step then 0 else \<lfloor>- log 10 step\<rfloor> + 1) - 1) \<and>
         (10::real) powi (- (if 1 \<le> step then 0 else \<lfloor>- log 10 step\<rfloor> + 1) - 1) \<le> 1"
proof -
  define p where "p = (if 1 \<le> step then 0 else \<lfloor>- log 10 step\<rfloor> + 1)"
  have "0 \<le> p"
  proof (cases "1 \<le> step")
    case True then show ?thesis by (simp add: p_def)
  next
    case False
    then have "log 10 step < 0" using assms by simp
    then have "0 \<le> \<lfloor>- log 10 step\<rfloor>" by simp
    then show ?thesis using False by (simp add: p_def)
  qed
  then have e: "- p - 1 = - int (nat (p + 1))" by simp
  have "(10::real) powi (- p - 1) = 1 / 10 ^ nat (p + 1)"
    unfolding e by (simp only: power_int_minus_divide power_int_of_nat)
  moreover have "(1::real) \<le> 10 ^ nat (p + 1)" by simp
  ultimately have "0 \<le> (10::real) powi (- p - 1) \<and> (10::real) powi (- p - 1) \<le> 1"
    by (simp add: divide_le_eq_1)
  then show ?thesis unfolding p_def .
qed

lemma vega_bin_post:
  assumes "xs \<noteq> []" and "1 \<le> maxb"
  shows "\<exists>start stop step. vega_bin xs maxb = Some (start, stop, step) \<and>
           0 < step \<and>
           vega_span (Min (set xs)) (Max (set xs)) / step \<le> real_of_int maxb \<and>
           start \<le> Min (set xs) \<and> Max (set xs) \<le> stop"
proof -
  define lo where "lo = Min (set xs)"
  define hi where "hi = Max (set xs)"
  define step where "step = vega_step (vega_span lo hi) maxb"
  define eps :: real where
    "eps = 10 powi (- (if 1 \<le> step then 0 else \<lfloor>- log 10 step\<rfloor> + 1) - 1)"
  define v where "v = of_int \<lfloor>lo / step + eps\<rfloor> * step"
  define start where "start = (if lo < v then v - step else v)"
  define stop where "stop = of_int \<lceil>hi / step\<rceil> * step"
  have c: "(xs = [] \<or> maxb < 1) = False" using assms by simp
  have vb: "vega_bin xs maxb = Some (start, if stop = start then start + step else stop, step)"
    by (simp only: vega_bin_def c if_False Let_def lo_def hi_def step_def eps_def v_def
        start_def stop_def)
  have st: "0 < step" "vega_span lo hi / step \<le> real_of_int maxb"
    using vega_step_post[OF assms(2), of "vega_span lo hi"] by (simp_all add: step_def)
  have e: "0 \<le> eps" "eps \<le> 1" using vega_eps_le_one[OF st(1)] by (simp_all add: eps_def)
  have "real_of_int \<lfloor>lo / step + eps\<rfloor> \<le> lo / step + eps" by (rule of_int_floor_le)
  then have "v \<le> (lo / step + eps) * step"
    unfolding v_def using st(1) by (intro mult_right_mono) simp_all
  moreover have "(lo / step + eps) * step = lo + eps * step"
    using st(1) by (simp add: distrib_right)
  ultimately have v1: "v \<le> lo + eps * step" by simp
  have "eps * step \<le> 1 * step" using e(2) st(1) by (intro mult_right_mono) simp_all
  then have "v - step \<le> lo" using v1 by simp
  then have a: "start \<le> lo" by (simp add: start_def)
  have "hi / step \<le> real_of_int \<lceil>hi / step\<rceil>" by (rule le_of_int_ceiling)
  then have "hi / step * step \<le> stop"
    unfolding stop_def using st(1) by (intro mult_right_mono) simp_all
  then have b: "hi \<le> stop" using st(1) by simp
  have "hi \<le> (if stop = start then start + step else stop)"
    using b st(1) by auto
  then show ?thesis using vb st a unfolding lo_def hi_def by blast
qed

text \<open>
  The number given as \<open>maxbins\<close> bounds the span over the step, not the number of bins
  drawn: the boundaries are rounded outwards to multiples of the step, and the values
  \<open>1/2\<close> and \<open>21/2\<close> with \<open>maxbins\<close> 10 are drawn in 11 bins.
\<close>

lemma vega_bin_more_than_maxbins: "vega_bin [1 / 2, 21 / 2] 10 = Some (0, 11, 1)"
proof -
  have g: "vega_grow 10 10 1 = 1" by (simp add: vega_grow.simps[of 10 10 1])
  have s: "vega_step 10 10 = 1" by (simp add: vega_step_def Let_def g)
  have f: "\<lfloor>1 / 2 + 1 / 10 :: real\<rfloor> = 0" "\<lceil>21 / 2 :: real\<rceil> = 11" by linarith+
  show ?thesis using f by (simp add: vega_bin_def Let_def vega_span_def s)
qed

text \<open>
  Claim C1 asks for the same bin count and the same bin edges from both engines. On the
  values \<open>0\<close> and \<open>10\<close> with 30 chosen on the slider, the Altair chart has 21 edges (20
  bins of width \<open>1/2\<close>) and the Matplotlib figure 31 edges (30 bins of width \<open>1/3\<close>).
\<close>

theorem histogram_engines_bin_differently:
  "histogram sample_lib ''x'' two_points 30 =
     Inr [AltairChart \<lparr>alt_data = [(0, 0), (1, 10)], alt_field = ''x'',
                        alt_maxbins = 30, alt_height = 300\<rparr>] \<and>
   histogram no_altair_lib ''x'' two_points 30 =
     Inr [Pyplot \<lparr>hist_data = [(0, 0), (1, 10)], hist_bins_arg = 30,
                   hist_xlabel = ''x'', hist_ylabel = ''count''\<rparr>] \<and>
   map_option length
     (bin_edges (AltairChart \<lparr>alt_data = [(0, 0), (1, 10)], alt_field = ''x'',
                               alt_maxbins = 30, alt_height = 300\<rparr>)) = Some 21 \<and>
   map_option length
     (bin_edges (Pyplot \<lparr>hist_data = [(0, 0), (1, 10)], hist_bins_arg = 30,
                          hist_xlabel = ''x'', hist_ylabel = ''count''\<rparr>)) = Some 31 \<and>
   bin_edges (AltairChart \<lparr>alt_data = [(0, 0), (1, 10)], alt_field = ''x'',
                            alt_maxbins = 30, alt_height = 300\<rparr>)
     \<noteq> bin_edges (Pyplot \<lparr>hist_data = [(0, 0), (1, 10)], hist_bins_arg = 30,
                             hist_xlabel = ''x'', hist_ylabel = ''count''\<rparr>)"
proof -
  have a: "map_option length
     (bin_edges (AltairChart \<lparr>alt_data = [(0, 0), (1, 10)], alt_field = ''x'',
                               alt_maxbins = 30, alt_height = 300\<rparr>)) = Some 21"
    using vega_edges_0_10_30 by simp
  have p: "map_option length
     (bin_edges (Pyplot \<lparr>hist_data = [(0, 0), (1, 10)], hist_bins_arg = 30,
                          hist_xlabel = ''x'', hist_ylabel = ''count''\<rparr>)) = Some 31"
    using numpy_edges_0_10_30 by simp
  have ne: "bin_edges (AltairChart \<lparr>alt_data = [(0, 0), (1, 10)], alt_field = ''x'',
                            alt_maxbins = 30, alt_height = 300\<rparr>)
     \<noteq> bin_edges (Pyplot \<lparr>hist_data = [(0, 0), (1, 10)], hist_bins_arg = 30,
                             hist_xlabel = ''x'', hist_ylabel = ''count''\<rparr>)"
    using a p by (metis numeral_eq_iff option.inject semiring_norm(88) semiring_norm(89) num.inject(1) num.inject(2) num.distinct)
  have h1: "histogram sample_lib ''x'' two_points 30 =
     Inr [AltairChart \<lparr>alt_data = [(0, 0), (1, 10)], alt_field = ''x'',
                        alt_maxbins = 30, alt_height = 300\<rparr>]"
    by (simp add: histogram_def two_points_def no_altair_lib_simps)
  have h2: "histogram no_altair_lib ''x'' two_points 30 =
     Inr [Pyplot \<lparr>hist_data = [(0, 0), (1, 10)], hist_bins_arg = 30,
                   hist_xlabel = ''x'', hist_ylabel = ''count''\<rparr>]"
    by (simp add: histogram_def two_points_def no_altair_lib_simps)
  show ?thesis by (intro conjI h1 h2 a p ne)
qed

text \<open>
  Claim C1, as the code has it. For every series and every number of bins from one on,
  when the Altair engine raises an \<open>Exception\<close> and the Matplotlib engine does not, the
  fallback draws the same present values as the primary attempt and is given the same
  number, but not as the same parameter. The fallback takes it as \<open>bins\<close>: it draws
  exactly that many bins of equal width over the range of the values, which is from the
  least to the greatest value when these differ, a half to each side of the value when
  all are equal, and from 0 to 1 when there is none. The primary takes it as
  \<open>maxbins\<close>: for a series with a present value its engine chooses a positive step of
  which the span of the values holds at most that many, and boundaries one step apart
  that enclose all the values.
\<close>

theorem histogram_fallback_same_values_and_number:
  assumes "altair_exn L (dropna s) bins = Some e" and "is_Exception e"
    and "pyplot_exn L (dropna s) bins = None"
    and "altair_exn L' (dropna s) bins = None"
    and "1 \<le> bins"
  shows "histogram L' selected s bins =
           Inr [AltairChart \<lparr>alt_data = dropna s, alt_field = selected,
                              alt_maxbins = bins, alt_height = 300\<rparr>] \<and>
         histogram L selected s bins =
           Inr [Pyplot \<lparr>hist_data = dropna s, hist_bins_arg = bins,
                         hist_xlabel = selected, hist_ylabel = ''count''\<rparr>] \<and>
         (\<exists>es. bin_edges (Pyplot \<lparr>hist_data = dropna s, hist_bins_arg = bins,
                         hist_xlabel = selected, hist_ylabel = ''count''\<rparr>) = Some es \<and>
               length es = nat bins + 1 \<and>
               hd es = fst (numpy_outer_edges (map snd (dropna s))) \<and>
               last es = snd (numpy_outer_edges (map snd (dropna s))) \<and>
               (\<forall>i<nat bins. es ! Suc i - es ! i =
                  (snd (numpy_outer_edges (map snd (dropna s)))
                   - fst (numpy_outer_edges (map snd (dropna s)))) / real_of_int bins)) \<and>
         fst (numpy_outer_edges (map snd (dropna s)))
           < snd (numpy_outer_edges (map snd (dropna s))) \<and>
         (dropna s = [] \<longrightarrow> numpy_outer_edges (map snd (dropna s)) = (0, 1)) \<and>
         (dropna s \<noteq> [] \<and>
          Min (set (map snd (dropna s))) = Max (set (map snd (dropna s))) \<longrightarrow>
            numpy_outer_edges (map snd (dropna s)) =
              (Min (set (map snd (dropna s))) - 1 / 2, Max (set (map snd (dropna s))) + 1 / 2)) \<and>
         (dropna s \<noteq> [] \<and>
          Min (set (map snd (dropna s))) \<noteq> Max (set (map snd (dropna s))) \<longrightarrow>
            numpy_outer_edges (map snd (dropna s)) =
              (Min (set (map snd (dropna s))), Max (set (map snd (dropna s))))) \<and>
         (dropna s \<noteq> [] \<longrightarrow>
            (\<exists>start stop step.
               bin_edges (AltairChart \<lparr>alt_data = dropna s, alt_field = selected,
                              alt_maxbins = bins, alt_height = 300\<rparr>) =
                 Some (map (\<lambda>i. start + real i * step)
                         [0..<nat \<lceil>(stop - start) / step\<rceil> + 1]) \<and>
               0 < step \<and>
               vega_span (Min (set (map snd (dropna s)))) (Max (set (map snd (dropna s))))
                 / step \<le> real_of_int bins \<and>
               start \<le> Min (set (map snd (dropna s))) \<and>
               Max (set (map snd (dropna s))) \<le> stop))"
proof -
  let ?xs = "map snd (dropna s)"
  have c1: "histogram L' selected s bins =
           Inr [AltairChart \<lparr>alt_data = dropna s, alt_field = selected,
                              alt_maxbins = bins, alt_height = 300\<rparr>]"
    using assms(4) by (simp add: histogram_def)
  have c2: "histogram L selected s bins =
           Inr [Pyplot \<lparr>hist_data = dropna s, hist_bins_arg = bins,
                         hist_xlabel = selected, hist_ylabel = ''count''\<rparr>]"
    using assms(1-3) by (simp add: histogram_def)
  have c3: "\<exists>es. bin_edges (Pyplot \<lparr>hist_data = dropna s, hist_bins_arg = bins,
                         hist_xlabel = selected, hist_ylabel = ''count''\<rparr>) = Some es \<and>
               length es = nat bins + 1 \<and>
               hd es = fst (numpy_outer_edges ?xs) \<and>
               last es = snd (numpy_outer_edges ?xs) \<and>
               (\<forall>i<nat bins. es ! Suc i - es ! i =
                  (snd (numpy_outer_edges ?xs) - fst (numpy_outer_edges ?xs))
                    / real_of_int bins)"
    using numpy_bin_edges_shape[OF assms(5), of ?xs] by simp
  have c4: "fst (numpy_outer_edges ?xs) < snd (numpy_outer_edges ?xs)"
    by (rule numpy_outer_edges_apart)
  have c5: "dropna s = [] \<longrightarrow> numpy_outer_edges ?xs = (0, 1)"
    by (simp add: numpy_outer_edges_def)
  have c6: "dropna s \<noteq> [] \<and> Min (set ?xs) = Max (set ?xs) \<longrightarrow>
            numpy_outer_edges ?xs = (Min (set ?xs) - 1 / 2, Max (set ?xs) + 1 / 2)"
    by (simp add: numpy_outer_edges_def)
  have c7: "dropna s \<noteq> [] \<and> Min (set ?xs) \<noteq> Max (set ?xs) \<longrightarrow>
            numpy_outer_edges ?xs = (Min (set ?xs), Max (set ?xs))"
    by (simp add: numpy_outer_edges_def)
  have c8: "dropna s \<noteq> [] \<longrightarrow>
            (\<exists>start stop step.
               bin_edges (AltairChart \<lparr>alt_data = dropna s, alt_field = selected,
                              alt_maxbins = bins, alt_height = 300\<rparr>) =
                 Some (map (\<lambda>i. start + real i * step)
                         [0..<nat \<lceil>(stop - start) / step\<rceil> + 1]) \<and>
               0 < step \<and>
               vega_span (Min (set ?xs)) (Max (set ?xs)) / step \<le> real_of_int bins \<and>
               start \<le> Min (set ?xs) \<and> Max (set ?xs) \<le> stop)"
  proof
    assume "dropna s \<noteq> []"
    then have "?xs \<noteq> []" by simp
    from vega_bin_post[OF this assms(5)] obtain start stop step where
      v: "vega_bin ?xs bins = Some (start, stop, step)" "0 < step"
        "vega_span (Min (set ?xs)) (Max (set ?xs)) / step \<le> real_of_int bins"
        "start \<le> Min (set ?xs)" "Max (set ?xs) \<le> stop"
      by blast
    have "bin_edges (AltairChart \<lparr>alt_data = dropna s, alt_field = selected,
                              alt_maxbins = bins, alt_height = 300\<rparr>) =
        Some (map (\<lambda>i. start + real i * step) [0..<nat \<lceil>(stop - start) / step\<rceil> + 1])"
      using v(1) by (simp add: vega_bin_edges_def del: upt_Suc)
    then show "\<exists>start stop step.
               bin_edges (AltairChart \<lparr>alt_data = dropna s, alt_field = selected,
                              alt_maxbins = bins, alt_height = 300\<rparr>) =
                 Some (map (\<lambda>i. start + real i * step)
                         [0..<nat \<lceil>(stop - start) / step\<rceil> + 1]) \<and>
               0 < step \<and>
               vega_span (Min (set ?xs)) (Max (set ?xs)) / step \<le> real_of_int bins \<and>
               start \<le> Min (set ?xs) \<and> Max (set ?xs) \<le> stop"
      using v(2-5) by blast
  qed
  show ?thesis by (intro conjI c1 c2 c3 c4 c5 c6 c7 c8)
qed

theorem histogram_fallback_same_values_and_number_witness:
  "altair_exn no_altair_lib (dropna two_points) 30 = Some (OtherException ''ModuleNotFoundError'') \<and>
   is_Exception (OtherException ''ModuleNotFoundError'') \<and>
   pyplot_exn no_altair_lib (dropna two_points) 30 = None \<and>
   altair_exn sample_lib (dropna two_points) 30 = None \<and>
   dropna two_points = [(0, 0), (1, 10)] \<and>
   histogram no_altair_lib ''x'' two_points 30 =
     Inr [Pyplot \<lparr>hist_data = [(0, 0), (1, 10)], hist_bins_arg = 30,
                   hist_xlabel = ''x'', hist_ylabel = ''count''\<rparr>] \<and>
   numpy_outer_edges [0, 10] = (0, 10) \<and>
   (\<exists>es. bin_edges (Pyplot \<lparr>hist_data = [(0, 0), (1, 10)], hist_bins_arg = 30,
                   hist_xlabel = ''x'', hist_ylabel = ''count''\<rparr>) = Some es \<and>
         length es = 31 \<and> hd es = 0 \<and> last es = 10 \<and> es ! 1 - es ! 0 = 1 / 3) \<and>
   vega_bin [0, 10] 30 = Some (0, 10, 1 / 2)"
proof -
  have h: "altair_exn no_altair_lib (dropna two_points) 30 = Some (OtherException ''ModuleNotFoundError'')"
    "is_Exception (OtherException ''ModuleNotFoundError'')"
    "pyplot_exn no_altair_lib (dropna two_points) 30 = None"
    "altair_exn sample_lib (dropna two_points) 30 = None"
    "(1::int) \<le> 30"
    by (simp_all add: no_altair_lib_simps)
  have d: "dropna two_points = [(0, 0), (1, 10)]" by (simp add: two_points_def)
  have r: "numpy_outer_edges [0, 10] = (0, 10)" by (simp add: numpy_outer_edges_def)
  note t = histogram_fallback_same_values_and_number[OF h, of "''x''"]
  from t obtain es where es:
    "bin_edges (Pyplot \<lparr>hist_data = [(0, 0), (1, 10)], hist_bins_arg = 30,
                   hist_xlabel = ''x'', hist_ylabel = ''count''\<rparr>) = Some es"
    "length es = 31" "hd es = 0" "last es = 10"
    "\<forall>i<30. es ! Suc i - es ! i = 10 / 30"
    unfolding d by (auto simp: r)
  from es(5) have "es ! Suc 0 - es ! 0 = 10 / 30" by simp
  then have "es ! 1 - es ! 0 = 1 / 3" by simp
  then show ?thesis using h t es d r vega_bin_0_10_30 unfolding d by auto
qed

end
